theory Spec2Isabelle
  imports Complex_Main "HOL-Library.Multiset" "HOL-Library.Sublist"
begin

section \<open>Errors raised by the modelled Python code\<close>

text \<open>
  The only exceptions the modelled functions of \<^verbatim>\<open>advanced_node_features.py\<close> can raise:
  \<^verbatim>\<open>list.remove\<close> raises \<^verbatim>\<open>ValueError\<close> on a missing element, a division by
  zero raises \<^verbatim>\<open>ZeroDivisionError\<close>, and the conversion of an integer too large for
  a float or for an index, or of an infinite float to an integer, raises
  \<^verbatim>\<open>OverflowError\<close>.
\<close>

datatype py_error = ValueError | ZeroDivisionError | OverflowError

section \<open>Transaction pool\<close>

text \<open>
  \<^verbatim>\<open>class Transaction\<close> of \<^verbatim>\<open>crypto_node_emulator_main.py\<close>: a plain object with
  seven attributes. Floats are modelled by reals (comparison of fees is all the pool does
  with them) and the creation time by a real timestamp. The attribute \<^verbatim>\<open>status\<close> is
  called \<open>tx_status\<close> here, since the node class has an attribute of the same name.

  The class defines no \<^verbatim>\<open>__eq__\<close>, so Python compares transactions by identity. The
  model compares them by value. For the pool this gives the same lists of values: among
  transactions of equal value the stable sort selects the earlier ones first, and
  \<^verbatim>\<open>list.remove\<close> deletes the first one that is equal.
\<close>

record transaction =
  tx_id :: string
  from_addr :: string
  to_addr :: string
  amount :: real
  fee :: real
  timestamp :: real
  tx_status :: string

text \<open>
  \<^verbatim>\<open>Transaction.__init__\<close>; the reading of \<^verbatim>\<open>datetime.now()\<close> is the argument
  \<open>now\<close>.
\<close>

definition Transaction_init :: "string \<Rightarrow> string \<Rightarrow> string \<Rightarrow> real \<Rightarrow> real \<Rightarrow> real \<Rightarrow> transaction" where
  "Transaction_init tid src dst amt f now =
     \<lparr>tx_id = tid, from_addr = src, to_addr = dst, amount = amt, fee = f, timestamp = now,
      tx_status = ''pending''\<rparr>"

record transaction_pool =
  transactions :: "transaction list"
  max_pool_size :: int

text \<open>\<^verbatim>\<open>TransactionPool.__init__\<close>\<close>

definition TransactionPool_init :: transaction_pool where
  "TransactionPool_init = \<lparr>transactions = [], max_pool_size = 10000\<rparr>"

text \<open>
  \<^verbatim>\<open>TransactionPool.add_transaction\<close>: the updated pool and the returned boolean.
\<close>

definition add_transaction :: "transaction_pool \<Rightarrow> transaction \<Rightarrow> transaction_pool \<times> bool" where
  "add_transaction self tx =
     (if int (length (transactions self)) < max_pool_size self
      then (self\<lparr>transactions := transactions self @ [tx]\<rparr>, True)
      else (self, False))"

text \<open>
  \<^verbatim>\<open>sorted(xs, key=lambda x: x.fee, reverse=True)\<close>. Python's sort is stable, and with
  \<^verbatim>\<open>reverse=True\<close> it keeps the original order of elements with equal keys: the list
  is reversed, sorted stably in ascending order and reversed again.
\<close>

definition sorted_by_fee_reverse :: "transaction list \<Rightarrow> transaction list" where
  "sorted_by_fee_reverse txs = rev (sort_key fee (rev txs))"

text \<open>
  The slice \<^verbatim>\<open>xs[:count]\<close>: the first \<open>cnt\<close> elements, and for a negative
  \<open>cnt\<close> all but the last \<open>- cnt\<close> elements (the argument is named \<open>cnt\<close>, since
  \<open>count\<close> is a constant of the multiset library).
\<close>

definition slice_upto :: "'a list \<Rightarrow> int \<Rightarrow> 'a list" where
  "slice_upto xs cnt =
     (if cnt < 0 then take (nat (int (length xs) + cnt)) xs else take (nat cnt) xs)"

text \<open>\<^verbatim>\<open>list.remove(x)\<close>: deletes the first element equal to \<open>x\<close>, or raises.\<close>

definition list_remove :: "'a list \<Rightarrow> 'a \<Rightarrow> py_error + 'a list" where
  "list_remove xs x = (if x \<in> set xs then Inr (remove1 x xs) else Inl ValueError)"

text \<open>The loop \<^verbatim>\<open>for tx in selected_txs: self.transactions.remove(tx)\<close>.\<close>

fun remove_selected :: "'a list \<Rightarrow> 'a list \<Rightarrow> py_error + 'a list" where
  "remove_selected pool [] = Inr pool"
| "remove_selected pool (tx # rest) =
     (case list_remove pool tx of
        Inl e \<Rightarrow> Inl e
      | Inr pool' \<Rightarrow> remove_selected pool' rest)"

text \<open>
  \<^verbatim>\<open>TransactionPool.get_transactions_for_block\<close>: the updated pool and the returned
  list, or the exception of \<^verbatim>\<open>remove\<close>.
\<close>

definition get_transactions_for_block ::
    "transaction_pool \<Rightarrow> int \<Rightarrow> py_error + (transaction_pool \<times> transaction list)" where
  "get_transactions_for_block self cnt =
     (let sorted_txs = sorted_by_fee_reverse (transactions self);
          selected_txs = slice_upto sorted_txs cnt
      in case remove_selected (transactions self) selected_txs of
           Inl e \<Rightarrow> Inl e
         | Inr remaining \<Rightarrow> Inr (self\<lparr>transactions := remaining\<rparr>, selected_txs))"

section \<open>Mining simulator\<close>

text \<open>
  The state of \<^verbatim>\<open>class MiningSimulator\<close>. Python's integers are unbounded, so
  \<open>difficulty\<close> and \<open>current_nonce\<close> are of type \<open>int\<close>; the hash rate is a float
  that is only stored and reported.
\<close>

record mining_simulator =
  difficulty :: int
  current_nonce :: int
  target_hash :: string
  mining_power :: real

text \<open>
  The dictionary returned by a successful \<^verbatim>\<open>mine_block\<close>, with its four keys.
\<close>

record mining_result =
  hash :: string
  nonce :: int
  mining_time :: real
  hashrate :: real

text \<open>
  \<^verbatim>\<open>s * k\<close> on a Python string: \<open>k\<close> copies of \<open>s\<close>, the empty string for
  \<open>k \<le> 0\<close>.
\<close>

definition str_mul :: "string \<Rightarrow> int \<Rightarrow> string" where
  "str_mul s k = concat (replicate (nat k) s)"

text \<open>
  \<^verbatim>\<open>MiningSimulator.__init__\<close>. The draw \<^verbatim>\<open>random.uniform(1, 100)\<close> of the hash rate
  is the argument \<open>hash_power\<close>. The target is four zero characters, whatever the difficulty.
\<close>

definition MiningSimulator_init :: "int \<Rightarrow> real \<Rightarrow> mining_simulator" where
  "MiningSimulator_init d hash_power =
     \<lparr>difficulty = d, current_nonce = 0, target_hash = str_mul ''0'' 4, mining_power = hash_power\<rparr>"

text \<open>
  The decimal text of an integer, as the f-string \<^verbatim>\<open>f"{block_data}{self.current_nonce}"\<close>
  formats the nonce; \<open>digit_char\<close> is only applied to numbers below 10.
\<close>

definition digit_char :: "nat \<Rightarrow> char" where
  "digit_char d = ''0123456789'' ! d"

fun str_nat :: "nat \<Rightarrow> string" where
  "str_nat n = (if n < 10 then [digit_char n] else str_nat (n div 10) @ [digit_char (n mod 10)])"

declare str_nat.simps [simp del]

definition py_str :: "int \<Rightarrow> string" where
  "py_str i = (if i < 0 then CHR ''-'' # str_nat (nat (- i)) else str_nat (nat i))"

text \<open>\<^verbatim>\<open>s.startswith(t)\<close>\<close>

definition startswith :: "string \<Rightarrow> string \<Rightarrow> bool" where
  "startswith s t = (take (length t) s = t)"

text \<open>
  The \<^verbatim>\<open>while\<close> loop of \<^verbatim>\<open>mine_block\<close>, started at the cursor \<open>n\<close>. The library
  function \<^verbatim>\<open>hashlib.sha256(...).hexdigest()\<close> on the encoded string is the argument
  \<open>sha256_hex\<close>. The loop returns the cursor it stops at, and the hash found, if any.
  It terminates, since the distance of the cursor to 1000000 decreases.
\<close>

function mine_loop :: "(string \<Rightarrow> string) \<Rightarrow> string \<Rightarrow> string \<Rightarrow> int \<Rightarrow> int \<times> string option" where
  "mine_loop sha256_hex target block_data n =
     (if n < 1000000 then
        (let data_to_hash = block_data @ py_str n;
             block_hash = sha256_hex data_to_hash
         in if startswith block_hash target then (n, Some block_hash)
            else mine_loop sha256_hex target block_data (n + 1))
      else (n, None))"
  by pat_completeness auto
termination
  by (relation "measure (\<lambda>(h, t, b, n). nat (1000000 - n))") auto

declare mine_loop.simps [simp del]

text \<open>
  \<^verbatim>\<open>MiningSimulator.mine_block\<close>. The two readings of \<^verbatim>\<open>time.time()\<close>, at the start
  and at the match, are the arguments \<open>start_time\<close> and \<open>end_time\<close>. The cursor
  \<open>current_nonce\<close> is an attribute of the simulator: the loop starts from its value and
  leaves it where the loop stops. The result is the updated simulator and the returned
  dictionary, or \<open>None\<close>.
\<close>

definition mine_block ::
    "(string \<Rightarrow> string) \<Rightarrow> mining_simulator \<Rightarrow> string \<Rightarrow> real \<Rightarrow> real
      \<Rightarrow> mining_simulator \<times> mining_result option" where
  "mine_block sha256_hex self block_data start_time end_time =
     (case mine_loop sha256_hex (target_hash self) block_data (current_nonce self) of
        (n, Some block_hash) \<Rightarrow>
          (self\<lparr>current_nonce := n\<rparr>,
           Some \<lparr>hash = block_hash, nonce = n, mining_time = end_time - start_time,
                 hashrate = mining_power self\<rparr>)
      | (n, None) \<Rightarrow> (self\<lparr>current_nonce := n\<rparr>, None))"

text \<open>
  \<^verbatim>\<open>int(x)\<close> on a real number: truncation toward zero. The code applies it to a float;
  this function on the reals states what the product of an integer with 1.5 or 0.75,
  truncated, would be without the rounding of the float.
\<close>

definition py_int :: "real \<Rightarrow> int" where
  "py_int v = (if v < 0 then \<lceil>v\<rceil> else \<lfloor>v\<rfloor>)"

text \<open>
  Python's floats are IEEE 754 doubles: 53 significant bits, rounded to the nearest, ties
  to the even one, and finite below \<open>2 ^ 1024\<close>. \<open>bit_length\<close> is
  \<^verbatim>\<open>int.bit_length\<close>, and \<open>round53\<close> rounds a natural number to 53 significant bits.
\<close>

fun bit_length :: "nat \<Rightarrow> nat" where
  "bit_length a = (if a = 0 then 0 else Suc (bit_length (a div 2)))"

declare bit_length.simps [simp del]

definition round53 :: "nat \<Rightarrow> nat" where
  "round53 a =
     (let n = bit_length a
      in if n \<le> 53 then a
         else
           (let sh = n - 53; q = a div 2 ^ sh; r = a mod 2 ^ sh; half = 2 ^ (sh - 1)
            in (if half < r \<or> (r = half \<and> odd q) then q + 1 else q) * 2 ^ sh))"

text \<open>
  \<^verbatim>\<open>int(d * c)\<close> for an integer \<open>d\<close> and the float constant \<open>c = quarters / 4\<close> (6 for
  1.5 and 3 for 0.75, both exact as doubles). Python converts \<open>d\<close> to the nearest
  double, which raises \<^verbatim>\<open>OverflowError\<close> when that is \<open>2 ^ 1024\<close> or more; the product
  of the two doubles is rounded again, here in units of a quarter, and is infinite when
  it rounds to \<open>2 ^ 1024\<close> or more, on which \<^verbatim>\<open>int\<close> raises \<^verbatim>\<open>OverflowError\<close>;
  otherwise \<^verbatim>\<open>int\<close> truncates toward zero. The sign is that of \<open>d\<close>.
\<close>

definition int_times_float :: "int \<Rightarrow> nat \<Rightarrow> py_error + int" where
  "int_times_float d quarters =
     (let x = round53 (nat \<bar>d\<bar>)
      in if 2 ^ 1024 \<le> x then Inl OverflowError
         else
           (let q = round53 (quarters * x)
            in if 2 ^ 1026 \<le> q then Inl OverflowError
               else Inr (sgn d * int (q div 4))))"

text \<open>
  \<^verbatim>\<open>"0" * k\<close> as \<^verbatim>\<open>adjust_difficulty\<close> evaluates it, on a count \<open>k\<close> of any size.
  CPython converts the count to an index, which raises \<^verbatim>\<open>OverflowError\<close> when it is
  not from \<open>- 2 ^ 63\<close> to \<^verbatim>\<open>sys.maxsize\<close>, \<open>2 ^ 63 - 1\<close> on a 64-bit platform. The
  repeated text has one character, so that the length of the result is the count. Within
  these bounds the text is taken to be built: \<^verbatim>\<open>MemoryError\<close>, which depends on the
  machine, is not modelled.
\<close>

definition sys_maxsize :: int where
  "sys_maxsize = 2 ^ 63 - 1"

definition str_repeat :: "string \<Rightarrow> int \<Rightarrow> py_error + string" where
  "str_repeat s k =
     (if k < - sys_maxsize - 1 \<or> sys_maxsize < k then Inl OverflowError
      else Inr (str_mul s k))"

text \<open>
  \<^verbatim>\<open>MiningSimulator.adjust_difficulty\<close>: the exception raised, if any, and the simulator
  after the call. An exception of the product is raised before anything is assigned, and
  leaves the simulator as it was; an exception of the repetition is raised after the
  difficulty is assigned, and leaves the target as it was. Python's \<^verbatim>\<open>//\<close> is the
  floor division \<open>div\<close> of \<open>int\<close>.
\<close>

definition adjust_difficulty ::
    "mining_simulator \<Rightarrow> real \<Rightarrow> py_error option \<times> mining_simulator" where
  "adjust_difficulty self block_time =
     (let target_time = (600 :: real);
          self1 =
            (if block_time < target_time * 0.5
             then map_sum id (\<lambda>d. self\<lparr>difficulty := d\<rparr>) (int_times_float (difficulty self) 6)
             else if block_time > target_time * 2
             then map_sum id (\<lambda>d. self\<lparr>difficulty := d\<rparr>) (int_times_float (difficulty self) 3)
             else Inr self)
      in case self1 of
           Inl e \<Rightarrow> (Some e, self)
         | Inr s \<Rightarrow>
             (case str_repeat ''0'' (difficulty s div 1000000 + 1) of
                Inl e \<Rightarrow> (Some e, s)
              | Inr target \<Rightarrow> (None, s\<lparr>target_hash := target\<rparr>)))"

section \<open>SHA-256\<close>

text \<open>
  \<^verbatim>\<open>hashlib.sha256(data.encode()).hexdigest()\<close> is a library function. It is modelled
  after the standard (FIPS 180-4) on the bytes of the text, one byte for each character:
  the texts hashed here are ASCII. The 32-bit words are natural numbers below \<open>2 ^ 32\<close>,
  and the constants of the standard are written in decimal.
  The theorems on the mining loop hold for any digest function; this one is used to run
  the loop on concrete payloads.
\<close>

unbundle bit_operations_syntax

definition add32 :: "nat \<Rightarrow> nat \<Rightarrow> nat" where
  "add32 a b = (a + b) mod 4294967296"

definition rotr32 :: "nat \<Rightarrow> nat \<Rightarrow> nat" where
  "rotr32 n w = w div 2 ^ n + (w mod 2 ^ n) * 2 ^ (32 - n)"

definition not32 :: "nat \<Rightarrow> nat" where
  "not32 a = 4294967295 - a"

definition sha_ch :: "nat \<Rightarrow> nat \<Rightarrow> nat \<Rightarrow> nat" where
  "sha_ch e f g = (e AND f) XOR (not32 e AND g)"

definition sha_maj :: "nat \<Rightarrow> nat \<Rightarrow> nat \<Rightarrow> nat" where
  "sha_maj a b c = (a AND b) XOR (a AND c) XOR (b AND c)"

definition big_sigma0 :: "nat \<Rightarrow> nat" where
  "big_sigma0 a = rotr32 2 a XOR rotr32 13 a XOR rotr32 22 a"

definition big_sigma1 :: "nat \<Rightarrow> nat" where
  "big_sigma1 e = rotr32 6 e XOR rotr32 11 e XOR rotr32 25 e"

definition small_sigma0 :: "nat \<Rightarrow> nat" where
  "small_sigma0 w = rotr32 7 w XOR rotr32 18 w XOR w div 2 ^ 3"

definition small_sigma1 :: "nat \<Rightarrow> nat" where
  "small_sigma1 w = rotr32 17 w XOR rotr32 19 w XOR w div 2 ^ 10"

definition sha256_k :: "nat list" where
  "sha256_k =
    [1116352408, 1899447441, 3049323471, 3921009573, 961987163, 1508970993,
     2453635748, 2870763221, 3624381080, 310598401, 607225278, 1426881987,
     1925078388, 2162078206, 2614888103, 3248222580, 3835390401, 4022224774,
     264347078, 604807628, 770255983, 1249150122, 1555081692, 1996064986,
     2554220882, 2821834349, 2952996808, 3210313671, 3336571891, 3584528711,
     113926993, 338241895, 666307205, 773529912, 1294757372, 1396182291,
     1695183700, 1986661051, 2177026350, 2456956037, 2730485921, 2820302411,
     3259730800, 3345764771, 3516065817, 3600352804, 4094571909, 275423344,
     430227734, 506948616, 659060556, 883997877, 958139571, 1322822218,
     1537002063, 1747873779, 1955562222, 2024104815, 2227730452, 2361852424,
     2428436474, 2756734187, 3204031479, 3329325298]"

definition sha256_h0 :: "nat list" where
  "sha256_h0 =
    [1779033703, 3144134277, 1013904242, 2773480762, 1359893119, 2600822924,
     528734635, 1541459225]"

text \<open>One round on the eight working variables \<open>s\<close>, with the constant and the word of the round.\<close>

definition sha_round :: "nat \<Rightarrow> nat \<Rightarrow> nat list \<Rightarrow> nat list" where
  "sha_round k w s =
     (let t1 = add32 (add32 (add32 (add32 (s ! 7) (big_sigma1 (s ! 4))) (sha_ch (s ! 4) (s ! 5) (s ! 6))) k) w;
          t2 = add32 (big_sigma0 (s ! 0)) (sha_maj (s ! 0) (s ! 1) (s ! 2))
      in [add32 t1 t2, s ! 0, s ! 1, s ! 2, add32 (s ! 3) t1, s ! 4, s ! 5, s ! 6])"

text \<open>
  The message schedule as a window of the last 16 words, oldest first: the word 16
  places after the first one of the window.
\<close>

definition next_word :: "nat list \<Rightarrow> nat" where
  "next_word ws = add32 (add32 (add32 (small_sigma1 (ws ! 14)) (ws ! 9)) (small_sigma0 (ws ! 1))) (ws ! 0)"

fun sha_rounds :: "nat list \<Rightarrow> nat list \<Rightarrow> nat list \<Rightarrow> nat list" where
  "sha_rounds [] ws s = s"
| "sha_rounds (k # ks) ws s = sha_rounds ks (tl ws @ [next_word ws]) (sha_round k (ws ! 0) s)"

definition sha_compress :: "nat list \<Rightarrow> nat list \<Rightarrow> nat list" where
  "sha_compress block hs = map2 add32 hs (sha_rounds sha256_k block hs)"

fun be_words :: "nat list \<Rightarrow> nat list" where
  "be_words (a # b # c # d # rest) = (((a * 256 + b) * 256 + c) * 256 + d) # be_words rest"
| "be_words bs = []"

fun zeros :: "nat \<Rightarrow> nat list" where
  "zeros n = (if n = 0 then [] else 0 # zeros (n - 1))"

declare zeros.simps [simp del]

text \<open>
  The padding: the byte 128, zero bytes up to 8 bytes before a multiple of 64, and the
  length of the message in bits as 8 bytes.
\<close>

definition sha_pad :: "nat list \<Rightarrow> nat list" where
  "sha_pad bs = bs @ [128] @ zeros ((119 - length bs mod 64) mod 64) @
     map (\<lambda>i. (8 * length bs) div 256 ^ i mod 256) [7, 6, 5, 4, 3, 2, 1, 0]"

function sha_blocks :: "nat list \<Rightarrow> nat list list" where
  "sha_blocks ws = (if ws = [] then [] else take 16 ws # sha_blocks (drop 16 ws))"
  by pat_completeness auto
termination
  by (relation "measure length") auto

declare sha_blocks.simps [simp del]

definition hex_word :: "nat \<Rightarrow> string" where
  "hex_word w = map (\<lambda>i. ''0123456789abcdef'' ! (w div 16 ^ i mod 16)) [7, 6, 5, 4, 3, 2, 1, 0]"

definition sha256_hexdigest :: "string \<Rightarrow> string" where
  "sha256_hexdigest s =
     concat (map hex_word (fold sha_compress (sha_blocks (be_words (sha_pad (map of_char s)))) sha256_h0))"

section \<open>Nodes and their metrics\<close>

datatype NodeType = FULL | LIGHT | MINING | VALIDATOR

datatype NetworkProtocol = BITCOIN | ETHEREUM | CUSTOM

text \<open>The dataclasses \<^verbatim>\<open>NetworkMetrics\<close> and \<^verbatim>\<open>NodeMetrics\<close>; floats are reals.\<close>

record NetworkMetrics =
  latency :: real
  bandwidth :: real
  packet_loss :: real
  uptime :: real

record NodeMetrics =
  cpu_usage :: real
  memory_usage :: real
  disk_usage :: real
  network_io :: real

text \<open>
  The attributes of \<^verbatim>\<open>class AdvancedBlockchainNode\<close>. The coordinates \<^verbatim>\<open>x\<close> and
  \<^verbatim>\<open>y\<close> are called \<open>pos_x\<close> and \<open>pos_y\<close>; times are real timestamps in seconds; the
  lists \<^verbatim>\<open>peers\<close> and \<^verbatim>\<open>pending_transactions\<close> are created empty and never written
  by the class.
\<close>

record AdvancedBlockchainNode =
  node_id :: string
  node_type :: NodeType
  pos_x :: int
  pos_y :: int
  protocol :: NetworkProtocol
  status :: string
  last_seen :: real
  block_height :: int
  blockchain_size :: real
  peers :: "nat list"
  pending_transactions :: "transaction list"
  mempool_size :: int
  network_metrics :: NetworkMetrics
  node_metrics :: NodeMetrics
  sync_status :: string
  last_block_time :: real
  connection_count :: int
  version :: string

text \<open>
  The random draws and the clock reading of \<^verbatim>\<open>AdvancedBlockchainNode.__init__\<close>, in
  the order the constructor makes them.
\<close>

record init_draws =
  init_now :: real
  init_block_height :: int
  init_size_extra :: real
  init_latency :: real
  init_bandwidth :: real
  init_packet_loss :: real
  init_uptime :: real
  init_cpu_usage :: real
  init_memory_usage :: real
  init_disk_usage :: real
  init_network_io :: real
  init_minutes :: int
  init_connection_count :: int
  init_version_choice :: nat

text \<open>
  \<^verbatim>\<open>random.choice(xs)\<close> on a non-empty list: the element at the drawn index, which is
  taken modulo the length and so always in range.
\<close>

definition random_choice :: "'a list \<Rightarrow> nat \<Rightarrow> 'a" where
  "random_choice xs r = xs ! (r mod length xs)"

text \<open>\<^verbatim>\<open>_calculate_blockchain_size\<close> and \<^verbatim>\<open>_get_node_version\<close>\<close>

definition calculate_blockchain_size :: "real \<Rightarrow> real" where
  "calculate_blockchain_size extra = (let base_size = 400 in base_size + extra)"

definition get_node_version :: "NetworkProtocol \<Rightarrow> nat \<Rightarrow> string" where
  "get_node_version p r =
     random_choice
       (case p of
          BITCOIN \<Rightarrow> [''24.0.1'', ''23.0.0'', ''22.0.0'']
        | ETHEREUM \<Rightarrow> [''1.12.0'', ''1.11.0'', ''1.10.0'']
        | CUSTOM \<Rightarrow> [''1.0.0'', ''0.9.0'', ''0.8.0'']) r"

definition AdvancedBlockchainNode_init ::
    "string \<Rightarrow> NodeType \<Rightarrow> int \<Rightarrow> int \<Rightarrow> NetworkProtocol \<Rightarrow> init_draws \<Rightarrow> AdvancedBlockchainNode" where
  "AdvancedBlockchainNode_init nid ntype px py proto d =
     \<lparr>node_id = nid, node_type = ntype, pos_x = px, pos_y = py, protocol = proto,
      status = ''online'', last_seen = init_now d,
      block_height = init_block_height d,
      blockchain_size = calculate_blockchain_size (init_size_extra d),
      peers = [], pending_transactions = [], mempool_size = 0,
      network_metrics =
        \<lparr>latency = init_latency d, bandwidth = init_bandwidth d,
         packet_loss = init_packet_loss d, uptime = init_uptime d\<rparr>,
      node_metrics =
        \<lparr>cpu_usage = init_cpu_usage d, memory_usage = init_memory_usage d,
         disk_usage = init_disk_usage d, network_io = init_network_io d\<rparr>,
      sync_status = ''synced'',
      last_block_time = init_now d - 60 * real_of_int (init_minutes d),
      connection_count = init_connection_count d,
      version = get_node_version proto (init_version_choice d)\<rparr>"

text \<open>
  The draws of one call of \<^verbatim>\<open>update_metrics\<close>: the four results of
  \<^verbatim>\<open>random.uniform\<close>, the result of \<^verbatim>\<open>random.random()\<close> and the clock reading.
  Nothing is assumed about their values.
\<close>

record metric_draws =
  d_latency :: real
  d_bandwidth :: real
  d_cpu :: real
  d_memory :: real
  d_block :: real
  d_now :: real

text \<open>
  \<^verbatim>\<open>AdvancedBlockchainNode.update_metrics\<close>, statement by statement. Python's
  \<^verbatim>\<open>max(a, min(b, v))\<close> on numbers has the value of \<open>max a (min b v)\<close>.
\<close>

definition update_metrics :: "AdvancedBlockchainNode \<Rightarrow> metric_draws \<Rightarrow> AdvancedBlockchainNode" where
  "update_metrics self d =
     (let nm1 = (network_metrics self)\<lparr>latency := latency (network_metrics self) + d_latency d\<rparr>;
          nm2 = nm1\<lparr>latency := max 1 (min 500 (latency nm1))\<rparr>;
          nm3 = nm2\<lparr>bandwidth := bandwidth nm2 + d_bandwidth d\<rparr>;
          nm4 = nm3\<lparr>bandwidth := max 0.1 (min 200 (bandwidth nm3))\<rparr>;
          om1 = (node_metrics self)\<lparr>cpu_usage := cpu_usage (node_metrics self) + d_cpu d\<rparr>;
          om2 = om1\<lparr>cpu_usage := max 0 (min 100 (cpu_usage om1))\<rparr>;
          om3 = om2\<lparr>memory_usage := memory_usage om2 + d_memory d\<rparr>;
          om4 = om3\<lparr>memory_usage := max 50 (min 4000 (memory_usage om3))\<rparr>;
          self1 = self\<lparr>network_metrics := nm4, node_metrics := om4\<rparr>
      in if d_block d < 0.1
         then self1\<lparr>last_block_time := d_now d, block_height := block_height self1 + 1\<rparr>
         else self1)"

section \<open>Network simulator\<close>

text \<open>
  The simulator holds references to node objects, which the caller may hold too. A node
  store maps the address of each node object to its current value, and the simulator's
  list \<^verbatim>\<open>nodes\<close> is a list of addresses; the same address may occur more than once.
\<close>

type_synonym node_store = "nat \<Rightarrow> AdvancedBlockchainNode"

record NetworkSimulator =
  nodes :: "nat list"
  connections :: "nat list"
  network_load :: real
  total_bandwidth :: real

definition NetworkSimulator_init :: NetworkSimulator where
  "NetworkSimulator_init = \<lparr>nodes = [], connections = [], network_load = 0, total_bandwidth = 1000\<rparr>"

definition add_node :: "NetworkSimulator \<Rightarrow> nat \<Rightarrow> NetworkSimulator" where
  "add_node self a = self\<lparr>nodes := nodes self @ [a]\<rparr>"

text \<open>
  The draws of one event of \<^verbatim>\<open>_simulate_network_events\<close>: the index of the chosen
  event name, the index of the chosen node, the result of \<^verbatim>\<open>random.random()\<close>, and
  for a congestion the two results of \<^verbatim>\<open>random.uniform\<close> for the node at each position
  of the list. A handler reads the draws it makes and ignores the others.
\<close>

record event_draws =
  d_event :: nat
  d_node :: nat
  d_chance :: real
  d_congestion :: "nat \<Rightarrow> real \<times> real"

text \<open>
  The draws of one call of \<^verbatim>\<open>simulate_network_activity\<close>: those of
  \<^verbatim>\<open>update_metrics\<close> for the node at each position of the list, and those of the
  events; the number of events is the result of \<^verbatim>\<open>random.randint(1, 3)\<close>.
\<close>

record tick_draws =
  d_metrics :: "nat \<Rightarrow> metric_draws"
  d_events :: "event_draws list"

text \<open>
  The loop \<^verbatim>\<open>for node in self.nodes: node.update_metrics()\<close>, from position \<open>i\<close>.
\<close>

fun update_all :: "(nat \<Rightarrow> metric_draws) \<Rightarrow> nat \<Rightarrow> node_store \<Rightarrow> nat list \<Rightarrow> node_store" where
  "update_all ds i h [] = h"
| "update_all ds i h (a # rest) = update_all ds (Suc i) (h(a := update_metrics (h a) (ds i))) rest"

definition simulate_node_connection :: "event_draws \<Rightarrow> node_store \<Rightarrow> NetworkSimulator \<Rightarrow> node_store" where
  "simulate_node_connection d h self =
     (if length (nodes self) \<ge> 2 then
        (let a = random_choice (nodes self) (d_node d);
             node1 = (h a)\<lparr>connection_count := connection_count (h a) + 1\<rparr>;
             node2 = node1\<lparr>network_metrics :=
                       (network_metrics node1)\<lparr>uptime := min 99.9 (uptime (network_metrics node1) + 0.1)\<rparr>\<rparr>
         in h(a := node2))
      else h)"

definition simulate_node_disconnection :: "event_draws \<Rightarrow> node_store \<Rightarrow> NetworkSimulator \<Rightarrow> node_store" where
  "simulate_node_disconnection d h self =
     (if length (nodes self) \<ge> 1 then
        (let a = random_choice (nodes self) (d_node d)
         in if d_chance d < 0.1 then
              (let node1 = (h a)\<lparr>status := ''offline''\<rparr>;
                   node2 = node1\<lparr>connection_count := max 0 (connection_count node1 - 1)\<rparr>
               in h(a := node2))
            else h)
      else h)"

text \<open>The loop of \<^verbatim>\<open>_simulate_network_congestion\<close>, from position \<open>i\<close>.\<close>

fun congest_all :: "(nat \<Rightarrow> real \<times> real) \<Rightarrow> nat \<Rightarrow> node_store \<Rightarrow> nat list \<Rightarrow> node_store" where
  "congest_all ds i h [] = h"
| "congest_all ds i h (a # rest) =
     (let nm1 = (network_metrics (h a))\<lparr>latency := latency (network_metrics (h a)) + fst (ds i)\<rparr>;
          nm2 = nm1\<lparr>packet_loss := packet_loss nm1 + snd (ds i)\<rparr>
      in congest_all ds (Suc i) (h(a := (h a)\<lparr>network_metrics := nm2\<rparr>)) rest)"

definition simulate_network_congestion :: "event_draws \<Rightarrow> node_store \<Rightarrow> NetworkSimulator \<Rightarrow> node_store" where
  "simulate_network_congestion d h self = congest_all (d_congestion d) 0 h (nodes self)"

definition events :: "string list" where
  "events = [''node_connection'', ''node_disconnection'', ''network_congestion'',
             ''packet_loss'', ''bandwidth_fluctuation'']"

text \<open>
  One iteration of the loop of \<^verbatim>\<open>_simulate_network_events\<close>: the event is chosen, and
  the \<^verbatim>\<open>if\<close>/\<^verbatim>\<open>elif\<close> chain calls its handler; two of the five names have none.
\<close>

definition simulate_network_event :: "NetworkSimulator \<Rightarrow> event_draws \<Rightarrow> node_store \<Rightarrow> node_store" where
  "simulate_network_event self d h =
     (let event = random_choice events (d_event d)
      in if event = ''node_connection'' then simulate_node_connection d h self
         else if event = ''node_disconnection'' then simulate_node_disconnection d h self
         else if event = ''network_congestion'' then simulate_network_congestion d h self
         else h)"

definition simulate_network_events :: "event_draws list \<Rightarrow> node_store \<Rightarrow> NetworkSimulator \<Rightarrow> node_store" where
  "simulate_network_events ds h self = fold (simulate_network_event self) ds h"

text \<open>\<^verbatim>\<open>NetworkSimulator.simulate_network_activity\<close>: one tick.\<close>

definition simulate_network_activity ::
    "tick_draws \<Rightarrow> node_store \<times> NetworkSimulator \<Rightarrow> node_store \<times> NetworkSimulator" where
  "simulate_network_activity d hs =
     (let h = fst hs; self = snd hs;
          h1 = update_all (d_metrics d) 0 h (nodes self);
          self1 = self\<lparr>network_load := sum_list (map (\<lambda>a. network_io (node_metrics (h1 a))) (nodes self))\<rparr>;
          self2 = self1\<lparr>network_load := min (total_bandwidth self1) (network_load self1)\<rparr>
      in (simulate_network_events (d_events d) h1 self2, self2))"

text \<open>
  \<^verbatim>\<open>round(v, 1)\<close>: rounding to one decimal place, a tie going to the even digit.
\<close>

definition round_half_even :: "real \<Rightarrow> int" where
  "round_half_even v =
     (let f = \<lfloor>v\<rfloor>; r = v - real_of_int f
      in if r < 1 / 2 then f else if r > 1 / 2 then f + 1 else if even f then f else f + 1)"

definition round1 :: "real \<Rightarrow> real" where
  "round1 v = real_of_int (round_half_even (v * 10)) / 10"

text \<open>
  The four labels of \<^verbatim>\<open>_calculate_network_health\<close>, which are Russian words in the
  source: excellent, good, satisfactory and bad.
\<close>

datatype health_label = Excellent | Good | Satisfactory | Bad

definition online_nodes_of :: "node_store \<Rightarrow> NetworkSimulator \<Rightarrow> AdvancedBlockchainNode list" where
  "online_nodes_of h self = filter (\<lambda>n. status n = ''online'') (map h (nodes self))"

definition calculate_network_health :: "node_store \<Rightarrow> NetworkSimulator \<Rightarrow> py_error + health_label" where
  "calculate_network_health h self =
     (if length (nodes self) = 0 then Inl ZeroDivisionError
      else
        (let online_ratio = real (length (online_nodes_of h self)) / real (length (nodes self))
         in Inr (if online_ratio \<ge> 0.9 then Excellent
                 else if online_ratio \<ge> 0.7 then Good
                 else if online_ratio \<ge> 0.5 then Satisfactory
                 else Bad)))"

text \<open>The dictionary returned by \<^verbatim>\<open>get_network_statistics\<close>.\<close>

record network_statistics =
  total_nodes :: nat
  online_nodes :: nat
  network_load_percent :: real
  average_latency :: real
  average_bandwidth :: real
  total_connections :: int
  network_health :: health_label

text \<open>
  \<^verbatim>\<open>NetworkSimulator.get_network_statistics\<close>. The entries of the dictionary are
  evaluated in order: the division by \<^verbatim>\<open>total_bandwidth\<close> comes first, the division by
  the number of nodes in \<^verbatim>\<open>_calculate_network_health\<close> last; either raises when the
  divisor is zero.
\<close>

definition get_network_statistics :: "node_store \<Rightarrow> NetworkSimulator \<Rightarrow> py_error + network_statistics" where
  "get_network_statistics h self =
     (let online = online_nodes_of h self
      in if total_bandwidth self = 0 then Inl ZeroDivisionError
         else
           (case calculate_network_health h self of
              Inl e \<Rightarrow> Inl e
            | Inr health \<Rightarrow>
                Inr \<lparr>total_nodes = length (nodes self),
                     online_nodes = length online,
                     network_load_percent = round1 (network_load self / total_bandwidth self * 100),
                     average_latency =
                       (if online \<noteq> []
                        then round1 (sum_list (map (\<lambda>n. latency (network_metrics n)) online) / real (length online))
                        else 0),
                     average_bandwidth =
                       (if online \<noteq> []
                        then round1 (sum_list (map (\<lambda>n. bandwidth (network_metrics n)) online) / real (length online))
                        else 0),
                     total_connections = sum_list (map connection_count online),
                     network_health = health\<rparr>))"

section \<open>Concrete inputs\<close>

text \<open>
  Three transactions with the fees 0.01, 0.05 and 0.001, created in this order, on which
  the pool is run below.
\<close>

definition tx_a :: transaction where
  "tx_a = Transaction_init ''tx_a'' ''addr_1'' ''addr_2'' 1 0.01 0"

definition tx_b :: transaction where
  "tx_b = Transaction_init ''tx_b'' ''addr_3'' ''addr_4'' 2 0.05 1"

definition tx_c :: transaction where
  "tx_c = Transaction_init ''tx_c'' ''addr_5'' ''addr_6'' 3 0.001 2"

text \<open>
  A digest function on which the mining loop is run below in place of SHA-256, to reach
  the bound of the loop: its digest is zeros on every text of at least 14 characters
  and no other.
\<close>

definition digest_by_length :: "string \<Rightarrow> string" where
  "digest_by_length s = (if 14 \<le> length s then ''00000000'' else ''ffffffff'')"

text \<open>
  The simulator of difficulty 1000 after \<^verbatim>\<open>adjust_difficulty(600)\<close>, whose target is
  the one character \<open>0\<close>, and the same simulator with its cursor at 1.
\<close>

definition miner_0 :: mining_simulator where
  "miner_0 = \<lparr>difficulty = 1000, current_nonce = 0, target_hash = ''0'', mining_power = 50\<rparr>"

definition miner_1 :: mining_simulator where
  "miner_1 = \<lparr>difficulty = 1000, current_nonce = 1, target_hash = ''0'', mining_power = 50\<rparr>"

text \<open>
  A node as its constructor makes it from the draws \<open>node_draws\<close>, two stores that hold
  it at every address, online as constructed and offline, and a simulator to which the
  addresses 0 and 1 were added. The first tick below draws a disconnection that takes
  effect at the node at address 0, the second a connection.
\<close>

definition node_draws :: init_draws where
  "node_draws =
     \<lparr>init_now = 0, init_block_height = 100000, init_size_extra = 25, init_latency = 35,
      init_bandwidth = 50, init_packet_loss = 1, init_uptime = 99, init_cpu_usage = 10,
      init_memory_usage = 500, init_disk_usage = 100, init_network_io = 5, init_minutes = 10,
      init_connection_count = 20, init_version_choice = 0\<rparr>"

definition node_a :: AdvancedBlockchainNode where
  "node_a = AdvancedBlockchainNode_init ''FULL_001'' FULL 100 100 BITCOIN node_draws"

definition store_online :: node_store where
  "store_online = (\<lambda>a. node_a)"

definition store_offline :: node_store where
  "store_offline = (\<lambda>a. node_a\<lparr>status := ''offline''\<rparr>)"

definition sim_two :: NetworkSimulator where
  "sim_two = add_node (add_node NetworkSimulator_init 0) 1"

definition calm_draws :: metric_draws where
  "calm_draws = \<lparr>d_latency = 1, d_bandwidth = 0.5, d_cpu = 1, d_memory = 5, d_block = 0.5, d_now = 1\<rparr>"

definition tick_disconnect :: tick_draws where
  "tick_disconnect =
     \<lparr>d_metrics = (\<lambda>i. calm_draws),
      d_events = [\<lparr>d_event = 1, d_node = 0, d_chance = 0.05, d_congestion = (\<lambda>i. (10, 0.1))\<rparr>]\<rparr>"

definition tick_connect :: tick_draws where
  "tick_connect =
     \<lparr>d_metrics = (\<lambda>i. calm_draws),
      d_events = [\<lparr>d_event = 0, d_node = 0, d_chance = 0.5, d_congestion = (\<lambda>i. (10, 0.1))\<rparr>]\<rparr>"

lemmas pool_eval =
  get_transactions_for_block_def sorted_by_fee_reverse_def slice_upto_def list_remove_def
  tx_a_def tx_b_def tx_c_def Transaction_init_def

section \<open>Properties of the transaction pool\<close>

lemma mset_sorted_by_fee_reverse: "mset (sorted_by_fee_reverse xs) = mset xs"
  by (simp add: sorted_by_fee_reverse_def)

lemma length_sorted_by_fee_reverse: "length (sorted_by_fee_reverse xs) = length xs"
  by (simp add: sorted_by_fee_reverse_def)

lemma sorted_sorted_by_fee_reverse:
  "sorted_wrt (\<lambda>a b. fee a \<ge> fee b) (sorted_by_fee_reverse xs)"
proof -
  have "sorted (map fee (sort_key fee (rev xs)))"
    by (rule sorted_sort_key)
  then have "sorted_wrt (\<lambda>a b. fee a \<le> fee b) (sort_key fee (rev xs))"
    by (simp add: sorted_wrt_map)
  then show ?thesis
    by (simp add: sorted_by_fee_reverse_def sorted_wrt_rev)
qed

text \<open>Stability: transactions of one fee keep their insertion order.\<close>

lemma stable_sorted_by_fee_reverse:
  "filter (\<lambda>t. fee t = k) (sorted_by_fee_reverse xs) = filter (\<lambda>t. fee t = k) xs"
  by (simp add: sorted_by_fee_reverse_def rev_filter [symmetric] sort_key_stable)

text \<open>
  The removal loop never raises when the selection is a part of the pool, and what is left
  is the pool without the selection, in the pool's order.
\<close>

lemma remove_selected_ok:
  "mset sel \<subseteq># mset pool \<Longrightarrow>
   \<exists>r. remove_selected pool sel = Inr r \<and> mset r = mset pool - mset sel \<and> subseq r pool"
proof (induction sel arbitrary: pool)
  case Nil
  then show ?case by simp
next
  case (Cons t sel)
  from Cons.prems have t_in: "t \<in> set pool"
    by (metis insert_subset_eq_iff mset.simps(2) mset_subset_eq_insertD set_mset_mset)
  from Cons.prems have "mset sel \<subseteq># mset (remove1 t pool)"
    by (simp add: insert_subset_eq_iff)
  from Cons.IH [OF this] obtain r where
    r: "remove_selected (remove1 t pool) sel = Inr r" "mset r = mset (remove1 t pool) - mset sel"
       "subseq r (remove1 t pool)"
    by blast
  have "subseq (remove1 t pool) pool"
    by (induction pool) auto
  with r(3) have "subseq r pool"
    using subseq_order.order_trans by blast
  with r t_in show ?case
    by (simp add: list_remove_def)
qed

lemma filter_take_prefix: "prefix (filter P (take n xs)) (filter P xs)"
proof -
  have "filter P xs = filter P (take n xs) @ filter P (drop n xs)"
    by (metis append_take_drop_id filter_append)
  then show ?thesis by (simp add: prefix_def)
qed

lemma slice_upto_nonneg: "0 \<le> cnt \<Longrightarrow> slice_upto xs cnt = take (nat cnt) xs"
  by (simp add: slice_upto_def)

lemma mset_take_subseteq: "mset (take n xs) \<subseteq># mset xs"
  by (metis append_take_drop_id mset_append mset_subset_eq_add_left)

text \<open>
  Claim C1, as amended: for every pool and every count \<open>cnt \<ge> 0\<close>,
  \<^verbatim>\<open>get_transactions_for_block\<close> raises nothing and returns a list \<open>selected\<close> that is
  sorted by fee in non-increasing order, in which the transactions of any one fee are an
  initial part of the pool's transactions of that fee in insertion order, and whose fees
  are at least the fees of all transactions left in the pool; its length is the minimum of
  \<open>cnt\<close> and the pool size before the call; the returned transactions are removed from the
  pool (the rest stays, in its order), and the pool size decreases by exactly that minimum.
  The claim as stated quantifies over every count; for a negative count the slice
  \<^verbatim>\<open>sorted_txs[:count]\<close> drops the last \<open>- cnt\<close> transactions instead.
\<close>

theorem get_transactions_for_block_nonneg:
  assumes "0 \<le> cnt"
  shows "\<exists>remaining selected.
      get_transactions_for_block self cnt = Inr (self\<lparr>transactions := remaining\<rparr>, selected)
    \<and> sorted_wrt (\<lambda>a b. fee a \<ge> fee b) selected
    \<and> (\<forall>k. prefix (filter (\<lambda>t. fee t = k) selected) (filter (\<lambda>t. fee t = k) (transactions self)))
    \<and> (\<forall>s r. s \<in> set selected \<and> r \<in> set remaining \<longrightarrow> fee r \<le> fee s)
    \<and> int (length selected) = min cnt (int (length (transactions self)))
    \<and> mset selected + mset remaining = mset (transactions self)
    \<and> subseq remaining (transactions self)
    \<and> int (length remaining) = int (length (transactions self)) - min cnt (int (length (transactions self)))"
proof -
  define pool where "pool = transactions self"
  define srt where "srt = sorted_by_fee_reverse pool"
  define selected where "selected = take (nat cnt) srt"
  have sel: "slice_upto srt cnt = selected"
    using assms by (simp add: slice_upto_nonneg selected_def)
  have sub: "mset selected \<subseteq># mset pool"
    using mset_take_subseteq [of "nat cnt" srt]
    by (simp add: selected_def srt_def mset_sorted_by_fee_reverse)
  from remove_selected_ok [OF sub] obtain remaining where
    rem: "remove_selected pool selected = Inr remaining"
      "mset remaining = mset pool - mset selected" "subseq remaining pool"
    by blast
  have res: "get_transactions_for_block self cnt = Inr (self\<lparr>transactions := remaining\<rparr>, selected)"
    using rem(1) sel by (simp add: get_transactions_for_block_def pool_def [symmetric] srt_def [symmetric])
  have srt_sorted: "sorted_wrt (\<lambda>a b. fee a \<ge> fee b) srt"
    unfolding srt_def by (rule sorted_sorted_by_fee_reverse)
  have sorted_sel: "sorted_wrt (\<lambda>a b. fee a \<ge> fee b) selected"
    unfolding selected_def using srt_sorted by (rule sorted_wrt_take)
  have stable: "\<forall>k. prefix (filter (\<lambda>t. fee t = k) selected) (filter (\<lambda>t. fee t = k) pool)"
  proof
    fix k
    have "prefix (filter (\<lambda>t. fee t = k) (take (nat cnt) srt)) (filter (\<lambda>t. fee t = k) srt)"
      by (rule filter_take_prefix)
    then show "prefix (filter (\<lambda>t. fee t = k) selected) (filter (\<lambda>t. fee t = k) pool)"
      by (simp add: selected_def srt_def stable_sorted_by_fee_reverse)
  qed
  have split: "mset pool = mset selected + mset (drop (nat cnt) srt)"
  proof -
    have "mset pool = mset srt" by (simp add: srt_def mset_sorted_by_fee_reverse)
    moreover have "mset (take (nat cnt) srt) + mset (drop (nat cnt) srt) = mset srt"
      by (metis append_take_drop_id mset_append)
    ultimately show ?thesis by (simp add: selected_def)
  qed
  have rem_drop: "mset remaining = mset (drop (nat cnt) srt)"
    using rem(2) split by simp
  have top: "\<forall>s r. s \<in> set selected \<and> r \<in> set remaining \<longrightarrow> fee r \<le> fee s"
  proof (intro allI impI)
    fix s r assume sr: "s \<in> set selected \<and> r \<in> set remaining"
    have "set remaining = set (drop (nat cnt) srt)"
      using rem_drop by (metis set_mset_mset)
    with sr have "s \<in> set (take (nat cnt) srt)" "r \<in> set (drop (nat cnt) srt)"
      by (simp_all add: selected_def)
    moreover have "sorted_wrt (\<lambda>a b. fee a \<ge> fee b) (take (nat cnt) srt @ drop (nat cnt) srt)"
      using srt_sorted by simp
    ultimately show "fee r \<le> fee s"
      unfolding sorted_wrt_append by blast
  qed
  have len_sel: "int (length selected) = min cnt (int (length pool))"
  proof -
    have "length selected = min (nat cnt) (length pool)"
      by (simp add: selected_def srt_def length_sorted_by_fee_reverse)
    with assms show ?thesis by linarith
  qed
  have "length pool = length selected + length remaining"
    using split rem_drop by (metis length_append mset_append size_mset)
  then have len_rem: "int (length remaining) = int (length pool) - min cnt (int (length pool))"
    using len_sel by simp
  have perm: "mset selected + mset remaining = mset pool"
    using split rem_drop by simp
  show ?thesis
    using res sorted_sel stable top len_sel perm rem(3) len_rem
    unfolding pool_def by blast
qed

text \<open>
  The theorem at the pool of the three transactions and the count 2: the call returns
  the transactions of fee 0.05 and 0.01, in this order, and leaves the one of fee 0.001.
\<close>

theorem get_transactions_for_block_nonneg_witness:
  "(0 :: int) \<le> 2 \<and>
   get_transactions_for_block \<lparr>transactions = [tx_a, tx_b, tx_c], max_pool_size = 10000\<rparr> 2
     = Inr (\<lparr>transactions = [tx_c], max_pool_size = 10000\<rparr>, [tx_b, tx_a]) \<and>
   int (length [tx_b, tx_a]) = min 2 (int (length [tx_a, tx_b, tx_c]))"
proof -
  have h: "(0 :: int) \<le> 2" by simp
  from get_transactions_for_block_nonneg [OF h, of "\<lparr>transactions = [tx_a, tx_b, tx_c], max_pool_size = 10000\<rparr>"]
  obtain remaining selected where
    r: "get_transactions_for_block \<lparr>transactions = [tx_a, tx_b, tx_c], max_pool_size = 10000\<rparr> 2
          = Inr (\<lparr>transactions = remaining, max_pool_size = 10000\<rparr>, selected)"
       "int (length selected) = min 2 (int (length [tx_a, tx_b, tx_c]))"
    by auto
  have e: "get_transactions_for_block \<lparr>transactions = [tx_a, tx_b, tx_c], max_pool_size = 10000\<rparr> 2
     = Inr (\<lparr>transactions = [tx_c], max_pool_size = 10000\<rparr>, [tx_b, tx_a])"
    by (simp add: pool_eval)
  from r e have "selected = [tx_b, tx_a]" by simp
  with r(2) e h show ?thesis by simp
qed

text \<open>
  Claim C1 as stated fails at a negative count: on the pool of the transactions of fee
  0.01 and 0.05 the count \<open>- 1\<close> returns one transaction and removes it, where the
  minimum of the count and the pool size is \<open>- 1\<close>.
\<close>

theorem get_transactions_for_block_negative_count:
  "get_transactions_for_block \<lparr>transactions = [tx_a, tx_b], max_pool_size = 10000\<rparr> (- 1)
     = Inr (\<lparr>transactions = [tx_a], max_pool_size = 10000\<rparr>, [tx_b]) \<and>
   int (length [tx_b]) \<noteq> min (- 1) (int (length [tx_a, tx_b])) \<and>
   int (length [tx_a]) \<noteq> int (length [tx_a, tx_b]) - min (- 1) (int (length [tx_a, tx_b]))"
  by (simp add: pool_eval)

text \<open>
  Claim C2: on a pool whose \<^verbatim>\<open>max_pool_size\<close> is 10000, as the constructor sets it,
  \<^verbatim>\<open>add_transaction\<close> returns true exactly when the pool holds fewer than 10000
  transactions; it then appends the transaction at the end; otherwise it returns false
  and the pool is unchanged. The function has no raising branch.
\<close>

theorem add_transaction_capacity:
  assumes "max_pool_size self = 10000"
  shows "(snd (add_transaction self tx) \<longleftrightarrow> length (transactions self) < 10000)
    \<and> (length (transactions self) < 10000 \<longrightarrow>
         add_transaction self tx = (self\<lparr>transactions := transactions self @ [tx]\<rparr>, True)
         \<and> length (transactions (fst (add_transaction self tx))) = length (transactions self) + 1)
    \<and> (\<not> length (transactions self) < 10000 \<longrightarrow> add_transaction self tx = (self, False))"
  using assms by (simp add: add_transaction_def)

text \<open>
  The theorem at a pool that holds 10000 transactions, where the call returns false and
  changes nothing, and at the empty pool of the constructor, where it returns true.
\<close>

theorem add_transaction_capacity_witness:
  "max_pool_size \<lparr>transactions = replicate 10000 tx_a, max_pool_size = 10000\<rparr> = 10000 \<and>
   \<not> length (transactions \<lparr>transactions = replicate 10000 tx_a, max_pool_size = 10000\<rparr>) < 10000 \<and>
   add_transaction \<lparr>transactions = replicate 10000 tx_a, max_pool_size = 10000\<rparr> tx_b
     = (\<lparr>transactions = replicate 10000 tx_a, max_pool_size = 10000\<rparr>, False) \<and>
   max_pool_size TransactionPool_init = 10000 \<and>
   length (transactions TransactionPool_init) < 10000 \<and>
   add_transaction TransactionPool_init tx_b = (\<lparr>transactions = [tx_b], max_pool_size = 10000\<rparr>, True)"
proof -
  have h1: "max_pool_size \<lparr>transactions = replicate 10000 tx_a, max_pool_size = 10000\<rparr> = 10000"
    by simp
  have h2: "max_pool_size TransactionPool_init = 10000"
    by (simp add: TransactionPool_init_def)
  show ?thesis
    using add_transaction_capacity [OF h1, of tx_b] add_transaction_capacity [OF h2, of tx_b] h2
    by (simp add: TransactionPool_init_def)
qed

section \<open>Properties of the double products\<close>

text \<open>
  The rounding to 53 significant bits: \<open>bit_length\<close> brackets its argument between two
  powers of 2, numbers below \<open>2 ^ 53\<close> and their doubles are not changed, and the
  rounded number is not below a power of 2, or a number up to \<open>2 ^ 53\<close>, that the
  argument is not below.
\<close>

lemma bit_length_upper: "a < 2 ^ bit_length a"
proof (induction a rule: bit_length.induct)
  case (1 a)
  show ?case
  proof (cases "a = 0")
    case True
    then show ?thesis by (subst bit_length.simps) simp
  next
    case False
    from "1.IH" [OF False] have "a div 2 < 2 ^ bit_length (a div 2)" .
    then have "a < 2 * 2 ^ bit_length (a div 2)" by linarith
    with False show ?thesis by (subst bit_length.simps) simp
  qed
qed

lemma bit_length_lower: "0 < a \<Longrightarrow> 2 ^ (bit_length a - 1) \<le> a"
proof (induction a rule: bit_length.induct)
  case (1 a)
  from "1.prems" have nz: "a \<noteq> 0" by simp
  show ?case
  proof (cases "a div 2 = 0")
    case True
    then have "bit_length (a div 2) = 0" by (subst bit_length.simps) simp
    with nz "1.prems" show ?thesis by (subst bit_length.simps) simp
  next
    case False
    then have pos: "0 < a div 2" by simp
    from "1.IH" [OF nz pos] have h: "2 ^ (bit_length (a div 2) - 1) \<le> a div 2" .
    from False have "bit_length (a div 2) \<noteq> 0"
      by (subst bit_length.simps) simp
    then have "(2::nat) ^ bit_length (a div 2) = 2 * 2 ^ (bit_length (a div 2) - 1)"
      by (cases "bit_length (a div 2)") simp_all
    with h have "2 ^ bit_length (a div 2) \<le> a" by linarith
    with nz show ?thesis by (subst bit_length.simps) simp
  qed
qed

lemma bit_length_le: "a < 2 ^ k \<Longrightarrow> bit_length a \<le> k"
proof (rule ccontr)
  assume a: "a < 2 ^ k" and n: "\<not> bit_length a \<le> k"
  then have "0 < a" by (cases "a = 0") (simp_all add: bit_length.simps)
  from bit_length_lower [OF this] have "2 ^ (bit_length a - 1) \<le> a" .
  moreover have "(2::nat) ^ k \<le> 2 ^ (bit_length a - 1)"
  proof (rule power_increasing)
    from n show "k \<le> bit_length a - 1" by simp
  qed simp
  ultimately show False using a by linarith
qed

lemma bit_length_eq: "2 ^ k \<le> a \<Longrightarrow> a < 2 ^ Suc k \<Longrightarrow> bit_length a = Suc k"
proof -
  assume l: "2 ^ k \<le> a" and u: "a < 2 ^ Suc k"
  from u have le: "bit_length a \<le> Suc k" by (rule bit_length_le)
  have "\<not> bit_length a \<le> k"
  proof
    assume "bit_length a \<le> k"
    then have "(2::nat) ^ bit_length a \<le> 2 ^ k" by (intro power_increasing) simp_all
    with bit_length_upper [of a] l show False by simp
  qed
  with le show ?thesis by simp
qed

lemma round53_small: "a < 2 ^ 53 \<Longrightarrow> round53 a = a"
  using bit_length_le [of a 53] by (simp add: round53_def)

lemma round53_double: "a < 2 ^ 53 \<Longrightarrow> round53 (2 * a) = 2 * a"
proof (cases "2 * a < 2 ^ 53")
  case True
  then show ?thesis by (rule round53_small)
next
  case False
  assume a: "a < 2 ^ 53"
  from False a have "bit_length (2 * a) = Suc 53"
    by (intro bit_length_eq) simp_all
  then show ?thesis
    by (simp add: round53_def)
qed

lemma round53_large:
  assumes "53 < bit_length a"
  shows "2 ^ (bit_length a - 1) \<le> round53 a"
proof -
  define n where "n = bit_length a"
  define sh where "sh = n - 53"
  from assms have n: "53 < n" by (simp add: n_def)
  then have "0 < a" by (cases "a = 0") (simp_all add: n_def bit_length.simps)
  from bit_length_lower [OF this] have lo: "2 ^ (n - 1) \<le> a" by (simp add: n_def)
  have split: "(2::nat) ^ (n - 1) = 2 ^ 52 * 2 ^ sh"
  proof -
    from n have "n - 1 = 52 + sh" by (simp add: sh_def)
    then show ?thesis by (simp only: power_add)
  qed
  have "2 ^ 52 * 2 ^ sh div 2 ^ sh \<le> a div 2 ^ sh"
    using lo split by (metis div_le_mono)
  then have q: "2 ^ 52 \<le> a div 2 ^ sh" by simp
  have "(2::nat) ^ 52 * 2 ^ sh \<le>
      (if 2 ^ (sh - 1) < a mod 2 ^ sh \<or> (a mod 2 ^ sh = 2 ^ (sh - 1) \<and> odd (a div 2 ^ sh))
       then a div 2 ^ sh + 1 else a div 2 ^ sh) * 2 ^ sh"
    using q by (intro mult_le_mono1) simp
  then have "2 ^ (n - 1) \<le> round53 a"
    using n split by (simp add: round53_def Let_def n_def [symmetric] sh_def [symmetric])
  then show ?thesis by (simp add: n_def)
qed

lemma round53_lower: "k \<le> 2 ^ 53 \<Longrightarrow> k \<le> a \<Longrightarrow> k \<le> round53 a"
proof (cases "bit_length a \<le> 53")
  case True
  assume "k \<le> a"
  with True show ?thesis by (simp add: round53_def)
next
  case False
  assume k: "k \<le> 2 ^ 53"
  from False have n: "53 < bit_length a" by simp
  then have "(2::nat) ^ 53 \<le> 2 ^ (bit_length a - 1)"
    by (intro power_increasing) simp_all
  with round53_large [OF n] k show ?thesis by linarith
qed

lemma round53_power_lower: "2 ^ m \<le> a \<Longrightarrow> 2 ^ m \<le> round53 a"
proof (cases "bit_length a \<le> 53")
  case True
  assume "2 ^ m \<le> a"
  with True show ?thesis by (simp add: round53_def)
next
  case False
  assume m: "2 ^ m \<le> a"
  from False have n: "53 < bit_length a" by simp
  have "m < bit_length a"
  proof (rule ccontr)
    assume "\<not> m < bit_length a"
    then have "(2::nat) ^ bit_length a \<le> 2 ^ m" by (intro power_increasing) simp_all
    with bit_length_upper [of a] m show False by linarith
  qed
  then have "(2::nat) ^ m \<le> 2 ^ (bit_length a - 1)" by (intro power_increasing) simp_all
  with round53_large [OF n] show ?thesis by linarith
qed

text \<open>
  The product of an integer with 1.5 or 0.75 as the code computes it. While three times
  the difficulty is below \<open>2 ^ 53\<close> no rounding occurs, and the result is the integer
  division; from \<open>2 ^ 1024\<close> on the conversion raises; a positive difficulty gives a
  positive result, the difficulty 1 with 0.75 apart, which gives 0.
\<close>

lemma int_times_float_6:
  assumes "0 \<le> d" and "3 * d < 2 ^ 53"
  shows "int_times_float d 6 = Inr (3 * d div 2)"
proof -
  define x where "x = nat d"
  from assms have x: "3 * x < 2 ^ 53" "int x = d" "\<bar>d\<bar> = d"
    by (simp_all add: x_def nat_less_iff)
  then have xs: "x < 2 ^ 53" by simp
  have r1: "round53 x = x" using xs by (rule round53_small)
  have "round53 (2 * (3 * x)) = 2 * (3 * x)" using x(1) by (rule round53_double)
  then have r2: "round53 (6 * x) = 6 * x" by simp
  have small: "\<not> (2::nat) ^ 1024 \<le> x" "\<not> (2::nat) ^ 1026 \<le> 6 * x"
    using x(1) by simp_all
  have v: "int (6 * x div 4) = 3 * d div 2"
    using x(2) by (simp add: zdiv_int)
  have s: "sgn d * (3 * d div 2) = 3 * d div 2"
    using assms(1) by (cases "d = 0") simp_all
  show ?thesis
    using r1 r2 small v s by (simp add: int_times_float_def Let_def x(3) x_def [symmetric])
qed

lemma int_times_float_3:
  assumes "0 \<le> d" and "3 * d < 2 ^ 53"
  shows "int_times_float d 3 = Inr (3 * d div 4)"
proof -
  define x where "x = nat d"
  from assms have x: "3 * x < 2 ^ 53" "int x = d" "\<bar>d\<bar> = d"
    by (simp_all add: x_def nat_less_iff)
  then have xs: "x < 2 ^ 53" by simp
  have r1: "round53 x = x" using xs by (rule round53_small)
  have r2: "round53 (3 * x) = 3 * x" using x(1) by (rule round53_small)
  have small: "\<not> (2::nat) ^ 1024 \<le> x" "\<not> (2::nat) ^ 1026 \<le> 3 * x"
    using x(1) by simp_all
  have v: "int (3 * x div 4) = 3 * d div 4"
    using x(2) by (simp add: zdiv_int)
  have s: "sgn d * (3 * d div 4) = 3 * d div 4"
    using assms(1) by (cases "d = 0") simp_all
  show ?thesis
    using r1 r2 small v s by (simp add: int_times_float_def Let_def x(3) x_def [symmetric])
qed

lemma int_times_float_positive:
  assumes "0 < d" and "quarters = 6 \<or> (quarters = 3 \<and> 2 \<le> d)"
    and "int_times_float d quarters = Inr v"
  shows "0 < v"
proof -
  define x where "x = round53 (nat \<bar>d\<bar>)"
  define q where "q = round53 (quarters * x)"
  from assms(3) have v: "v = sgn d * int (q div 4)"
    by (simp add: int_times_float_def Let_def x_def [symmetric] q_def [symmetric] split: if_splits)
  have "6 \<le> quarters * x"
  proof -
    from assms(1) have "1 \<le> x" unfolding x_def by (intro round53_lower) simp_all
    moreover have "quarters = 3 \<longrightarrow> 2 \<le> x"
      using assms(1,2) unfolding x_def by (auto intro!: round53_lower)
    ultimately show ?thesis using assms(2) by auto
  qed
  then have "6 \<le> q" unfolding q_def by (intro round53_lower) simp_all
  then have "1 \<le> q div 4" by simp
  with v assms(1) show ?thesis by simp
qed

lemma int_times_float_one: "int_times_float 1 3 = Inr 0" "int_times_float 1 6 = Inr 1"
  by (simp_all add: int_times_float_def round53_small)

lemma int_times_float_overflow:
  "2 ^ 1024 \<le> \<bar>d\<bar> \<Longrightarrow> int_times_float d quarters = Inl OverflowError"
proof -
  assume "2 ^ 1024 \<le> \<bar>d\<bar>"
  then have "2 ^ 1024 \<le> nat \<bar>d\<bar>" by (simp add: le_nat_iff)
  then have "2 ^ 1024 \<le> round53 (nat \<bar>d\<bar>)" by (rule round53_power_lower)
  then show ?thesis by (simp add: int_times_float_def Let_def)
qed

text \<open>
  At the difficulty 3002399751580333, whose triple is above \<open>2 ^ 53\<close>, both products
  are rounded up to an even number.
\<close>

lemma int_times_float_rounded:
  "int_times_float 3002399751580333 6 = Inr 4503599627370500"
  "int_times_float 3002399751580333 3 = Inr 2251799813685250"
  by (simp_all add: int_times_float_def round53_small round53_def bit_length.simps)

section \<open>Properties of the mining loop\<close>

lemma str_mul_zero_1: "str_mul ''0'' 1 = ''0''"
  by (simp add: str_mul_def)

lemma str_mul_zero_4: "str_mul ''0'' 4 = ''0000''"
  by (simp add: str_mul_def numeral_eq_Suc)

lemma str_mul_nonpos: "k \<le> 0 \<Longrightarrow> str_mul s k = []"
  by (simp add: str_mul_def)

lemmas mining_eval = MiningSimulator_init_def adjust_difficulty_def int_times_float_def
  round53_small str_repeat_def sys_maxsize_def str_mul_zero_1 str_mul_zero_4

text \<open>A nonce below 1000000 is written with at most six digits.\<close>

lemma length_str_nat: "0 < k \<Longrightarrow> n < 10 ^ k \<Longrightarrow> length (str_nat n) \<le> k"
proof (induction n arbitrary: k rule: str_nat.induct)
  case (1 n)
  show ?case
  proof (cases "n < 10")
    case True
    with "1.prems" show ?thesis
      by (subst str_nat.simps) simp
  next
    case False
    have k2: "0 < k - 1"
    proof (rule ccontr)
      assume "\<not> 0 < k - 1"
      with "1.prems" have "k = 1" by simp
      with "1.prems" False show False by simp
    qed
    from "1.prems" have "n < 10 * 10 ^ (k - 1)"
      by (cases k) simp_all
    then have "n div 10 < 10 ^ (k - 1)" by simp
    from "1.IH" [OF False k2 this] False k2 show ?thesis
      by (subst str_nat.simps) simp
  qed
qed

lemma length_py_str: "0 \<le> j \<Longrightarrow> j < 1000000 \<Longrightarrow> length (py_str j) \<le> 6"
proof -
  assume j: "0 \<le> j" "j < 1000000"
  then have "nat j < 10 ^ 6" by simp
  then have "length (str_nat (nat j)) \<le> 6"
    by (intro length_str_nat) simp_all
  with j show ?thesis by (simp add: py_str_def)
qed

lemma py_str_digits:
  "py_str 0 = ''0''" "py_str 1 = ''1''" "py_str 2 = ''2''" "py_str 3 = ''3''" "py_str 4 = ''4''"
  "py_str 5 = ''5''" "py_str 6 = ''6''" "py_str 7 = ''7''"
  by (simp_all add: py_str_def str_nat.simps digit_char_def)

lemma py_str_million: "py_str 1000000 = ''1000000''"
  by (simp add: py_str_def str_nat.simps digit_char_def)

text \<open>One iteration of the loop: a miss moves the cursor on, a hit stops it.\<close>

lemma mine_loop_step:
  "n < 1000000 \<Longrightarrow> \<not> startswith (H (b @ py_str n)) t \<Longrightarrow>
   mine_loop H t b n = mine_loop H t b (n + 1)"
  by (subst mine_loop.simps) simp

lemma mine_loop_hit:
  "n < 1000000 \<Longrightarrow> startswith (H (b @ py_str n)) t \<Longrightarrow>
   mine_loop H t b n = (n, Some (H (b @ py_str n)))"
  by (subst mine_loop.simps) simp

text \<open>
  The loop started at \<open>c\<close> stops at the first nonce from \<open>c\<close> below 1000000 whose
  digest starts with the target, and at \<open>max c 1000000\<close> when there is none.
\<close>

lemma mine_loop_first_match:
  "c \<le> k \<Longrightarrow> k < 1000000 \<Longrightarrow> startswith (H (b @ py_str k)) t \<Longrightarrow>
   (\<forall>j. c \<le> j \<and> j < k \<longrightarrow> \<not> startswith (H (b @ py_str j)) t) \<Longrightarrow>
   mine_loop H t b c = (k, Some (H (b @ py_str k)))"
proof (induction H t b c rule: mine_loop.induct)
  case (1 H t b n)
  show ?case
  proof (cases "n = k")
    case True
    with "1.prems" show ?thesis
      by (simp add: mine_loop_hit)
  next
    case False
    with "1.prems" have lt: "n < k" and n_lt: "n < 1000000" by simp_all
    with "1.prems" have nomatch: "\<not> startswith (H (b @ py_str n)) t" by simp
    have "mine_loop H t b (n + 1) = (k, Some (H (b @ py_str k)))"
      using "1.IH" [OF n_lt refl refl nomatch] lt "1.prems" by simp
    with n_lt nomatch show ?thesis
      by (simp add: mine_loop_step)
  qed
qed

lemma mine_loop_no_match:
  "(\<forall>j. c \<le> j \<and> j < 1000000 \<longrightarrow> \<not> startswith (H (b @ py_str j)) t) \<Longrightarrow>
   mine_loop H t b c = (max c 1000000, None)"
proof (induction H t b c rule: mine_loop.induct)
  case (1 H t b n)
  show ?case
  proof (cases "n < 1000000")
    case True
    with "1.prems" have nomatch: "\<not> startswith (H (b @ py_str n)) t" by simp
    have "mine_loop H t b (n + 1) = (max (n + 1) 1000000, None)"
      using "1.IH" [OF True refl refl nomatch] "1.prems" by simp
    with True nomatch show ?thesis
      by (simp add: mine_loop_step max_def)
  next
    case False
    then show ?thesis
      by (subst mine_loop.simps) (simp add: max_def)
  qed
qed

text \<open>Conversely, what the loop returns is such a first match, or there is none.\<close>

lemma mine_loop_Some:
  "mine_loop H t b c = (n, Some h) \<Longrightarrow>
   c \<le> n \<and> n < 1000000 \<and> h = H (b @ py_str n) \<and> startswith h t \<and>
   (\<forall>j. c \<le> j \<and> j < n \<longrightarrow> \<not> startswith (H (b @ py_str j)) t)"
proof (induction H t b c rule: mine_loop.induct)
  case (1 H t b c)
  from "1.prems" have c_lt: "c < 1000000"
    by (subst (asm) mine_loop.simps) (simp split: if_splits)
  show ?case
  proof (cases "startswith (H (b @ py_str c)) t")
    case True
    with c_lt "1.prems" show ?thesis
      by (subst (asm) mine_loop.simps) auto
  next
    case False
    with c_lt "1.prems" have "mine_loop H t b (c + 1) = (n, Some h)"
      by (subst (asm) mine_loop.simps) simp
    from "1.IH" [OF c_lt refl refl False this] False show ?thesis
      by (auto simp: order_le_less) (metis add.commute zless_imp_add1_zle order_le_less)
  qed
qed

lemma mine_loop_None:
  "mine_loop H t b c = (n, None) \<Longrightarrow>
   n = max c 1000000 \<and> (\<forall>j. c \<le> j \<and> j < 1000000 \<longrightarrow> \<not> startswith (H (b @ py_str j)) t)"
proof (induction H t b c rule: mine_loop.induct)
  case (1 H t b c)
  show ?case
  proof (cases "c < 1000000")
    case c_lt: True
    show ?thesis
    proof (cases "startswith (H (b @ py_str c)) t")
      case True
      with c_lt "1.prems" show ?thesis
        by (subst (asm) mine_loop.simps) auto
    next
      case False
      with c_lt "1.prems" have "mine_loop H t b (c + 1) = (n, None)"
        by (subst (asm) mine_loop.simps) simp
      from "1.IH" [OF c_lt refl refl False this] False c_lt show ?thesis
        by (auto simp: order_le_less max_def) (metis add.commute zless_imp_add1_zle order_le_less)
    qed
  next
    case False
    with "1.prems" show ?thesis
      by (subst (asm) mine_loop.simps) (auto simp: max_def)
  qed
qed

text \<open>Started again where it stopped, the loop stops there again with the same result.\<close>

lemma mine_loop_again:
  "mine_loop H t b c = (n, r) \<Longrightarrow> mine_loop H t b n = (n, r)"
proof (cases r)
  case None
  assume a: "mine_loop H t b c = (n, r)"
  from mine_loop_None [OF a [unfolded None]] have "1000000 \<le> n" by (simp add: max_def split: if_splits)
  then show ?thesis using None
    by (subst mine_loop.simps) simp
next
  case (Some h)
  assume a: "mine_loop H t b c = (n, r)"
  from mine_loop_Some [OF a [unfolded Some]] Some show ?thesis
    by (subst mine_loop.simps) (auto simp: Let_def)
qed

text \<open>The runs of the loop on the concrete inputs.\<close>

lemmas sha_eval = sha256_hexdigest_def sha_pad_def zeros.simps sha_blocks.simps sha_compress_def
  sha256_k_def sha256_h0_def sha_round_def next_word_def hex_word_def add32_def rotr32_def
  not32_def sha_ch_def sha_maj_def big_sigma0_def big_sigma1_def small_sigma0_def small_sigma1_def

text \<open>The SHA-256 digests of five texts, computed by the definition.\<close>

lemma sha256_block_1_nonce_0:
  "sha256_hexdigest ''block_1_data_10120'' =
     ''7898de71b4fad022272d6436adc3db74bd8fc00a34425d5117e7d34e81bad0b4''"
  by (simp add: sha_eval)

lemma sha256_block_1_nonce_1:
  "sha256_hexdigest ''block_1_data_10121'' =
     ''032baa4dcce8af572e0cc00abc7a094b6c2f3c36bb05364fafb52884ca6b5c89''"
  by (simp add: sha_eval)

lemma sha256_block_2_nonce_0:
  "sha256_hexdigest ''block_2_data_10180'' =
     ''02a752a9e8907e6455b67137c1a4c111006afb7d99a673b71f4deadd42667557''"
  by (simp add: sha_eval)

lemma sha256_block_2_nonce_1:
  "sha256_hexdigest ''block_2_data_10181'' =
     ''0184deb9025e39e904af99416b5d9c2d28015ff873abac41474bf2895ae8e2cd''"
  by (simp add: sha_eval)

lemma sha256_payload_nonce_0:
  "sha256_hexdigest ''payload0'' =
     ''f5deb23a5b22acfcd60e56169e498b2f0246b397ec86fd74282031aa3e7b40a2''"
  by (simp add: sha_eval)

lemmas sha_values = sha256_block_1_nonce_0 sha256_block_1_nonce_1 sha256_block_2_nonce_0
  sha256_block_2_nonce_1 sha256_payload_nonce_0

lemma miner_0_adjusted: "adjust_difficulty (MiningSimulator_init 1000 50) 600 = (None, miner_0)"
  by (simp add: mining_eval miner_0_def)

text \<open>
  The payload \<open>block_1_data_1012\<close> on the simulator \<open>miner_0\<close>: the nonce 0 misses,
  the nonce 1 hits, and the cursor stays at 1. A second call stops there again.
\<close>

lemma mine_block_sha_block_1:
  "mine_block sha256_hexdigest miner_0 ''block_1_data_1012'' 0 1 =
   (miner_1,
    Some \<lparr>hash = ''032baa4dcce8af572e0cc00abc7a094b6c2f3c36bb05364fafb52884ca6b5c89'',
          nonce = 1, mining_time = 1, hashrate = 50\<rparr>)"
  by (simp add: mine_block_def miner_0_def miner_1_def mine_loop_step mine_loop_hit py_str_digits
      sha_values startswith_def)

lemma mine_block_sha_block_1_again:
  "mine_block sha256_hexdigest miner_1 ''block_1_data_1012'' 5 7 =
   (miner_1,
    Some \<lparr>hash = ''032baa4dcce8af572e0cc00abc7a094b6c2f3c36bb05364fafb52884ca6b5c89'',
          nonce = 1, mining_time = 2, hashrate = 50\<rparr>)"
  by (simp add: mine_block_def miner_1_def mine_loop_hit py_str_digits sha_values startswith_def)

text \<open>
  The payload \<open>block_2_data_1018\<close> on the simulator as the first payload left it: the
  loop starts at the nonce 1, which hits.
\<close>

lemma mine_block_sha_block_2:
  "mine_block sha256_hexdigest miner_1 ''block_2_data_1018'' 1 2 =
   (miner_1,
    Some \<lparr>hash = ''0184deb9025e39e904af99416b5d9c2d28015ff873abac41474bf2895ae8e2cd'',
          nonce = 1, mining_time = 1, hashrate = 50\<rparr>)"
  by (simp add: mine_block_def miner_1_def mine_loop_hit py_str_digits sha_values startswith_def)

text \<open>
  The same calls at any clock readings, and the payload \<open>block_2_data_1018\<close> on the
  simulator \<open>miner_0\<close>, whose cursor is 0: the nonce 0 hits, and the cursor stays at 0.
\<close>

lemma mine_block_sha_block_1_at:
  "mine_block sha256_hexdigest miner_0 ''block_1_data_1012'' t0 t1 =
   (miner_1,
    Some \<lparr>hash = ''032baa4dcce8af572e0cc00abc7a094b6c2f3c36bb05364fafb52884ca6b5c89'',
          nonce = 1, mining_time = t1 - t0, hashrate = 50\<rparr>)"
  by (simp add: mine_block_def miner_0_def miner_1_def mine_loop_step mine_loop_hit py_str_digits
      sha_values startswith_def)

lemma mine_block_sha_block_2_at:
  "mine_block sha256_hexdigest miner_1 ''block_2_data_1018'' t0 t1 =
   (miner_1,
    Some \<lparr>hash = ''0184deb9025e39e904af99416b5d9c2d28015ff873abac41474bf2895ae8e2cd'',
          nonce = 1, mining_time = t1 - t0, hashrate = 50\<rparr>)"
  by (simp add: mine_block_def miner_1_def mine_loop_hit py_str_digits sha_values startswith_def)

lemma mine_block_sha_block_2_first:
  "mine_block sha256_hexdigest miner_0 ''block_2_data_1018'' t0 t1 =
   (miner_0,
    Some \<lparr>hash = ''02a752a9e8907e6455b67137c1a4c111006afb7d99a673b71f4deadd42667557'',
          nonce = 0, mining_time = t1 - t0, hashrate = 50\<rparr>)"
  by (simp add: mine_block_def miner_0_def mine_loop_hit py_str_digits sha_values startswith_def)

text \<open>
  Whether a call returns at the nonce of its cursor is decided by the digest at that
  nonce alone.
\<close>

lemma mine_block_at_cursor:
  assumes c: "current_nonce self < 1000000"
  shows "(\<exists>r. snd (mine_block H self b t0 t1) = Some r \<and> nonce r = current_nonce self)
          \<longleftrightarrow> startswith (H (b @ py_str (current_nonce self))) (target_hash self)"
proof
  assume "\<exists>r. snd (mine_block H self b t0 t1) = Some r \<and> nonce r = current_nonce self"
  then obtain r where r: "snd (mine_block H self b t0 t1) = Some r" "nonce r = current_nonce self"
    by blast
  obtain n res where l: "mine_loop H (target_hash self) b (current_nonce self) = (n, res)"
    by (cases "mine_loop H (target_hash self) b (current_nonce self)")
  from r l obtain h where h: "res = Some h" "n = current_nonce self"
    by (cases res) (auto simp: mine_block_def)
  from mine_loop_Some [OF l [unfolded h(1)]] h(2)
  show "startswith (H (b @ py_str (current_nonce self))) (target_hash self)"
    by blast
next
  assume "startswith (H (b @ py_str (current_nonce self))) (target_hash self)"
  with c have "mine_loop H (target_hash self) b (current_nonce self) =
      (current_nonce self, Some (H (b @ py_str (current_nonce self))))"
    by (rule mine_loop_hit)
  then show "\<exists>r. snd (mine_block H self b t0 t1) = Some r \<and> nonce r = current_nonce self"
    by (simp add: mine_block_def)
qed

lemma no_match_by_length:
  "\<forall>j. current_nonce (MiningSimulator_init 1000000 50) \<le> j \<and> j < 1000000 \<longrightarrow>
     \<not> startswith (digest_by_length (''payload'' @ py_str j))
          (target_hash (MiningSimulator_init 1000000 50))"
  using length_py_str by (fastforce simp: digest_by_length_def startswith_def mining_eval)

lemma mine_block_length_payload:
  "mine_block digest_by_length (MiningSimulator_init 1000000 50) ''payload'' 0 1 =
   (\<lparr>difficulty = 1000000, current_nonce = 1000000, target_hash = ''0000'', mining_power = 50\<rparr>, None)"
proof -
  have "mine_loop digest_by_length (target_hash (MiningSimulator_init 1000000 50)) ''payload''
      (current_nonce (MiningSimulator_init 1000000 50)) =
      (max (current_nonce (MiningSimulator_init 1000000 50)) 1000000, None)"
    using no_match_by_length by (rule mine_loop_no_match)
  then show ?thesis
    by (simp add: mine_block_def mining_eval)
qed

text \<open>
  Claim C3, as amended: a call of \<^verbatim>\<open>mine_block\<close> searches the nonces from the
  simulator's cursor \<^verbatim>\<open>current_nonce\<close> up to 999999 in order. The cursor is 0 in a
  new simulator and no call resets it. The call succeeds at the first nonce from the
  cursor whose digest of payload and nonce starts with the target, returns that digest
  and nonce and leaves the cursor at that nonce; when no nonce from the cursor up to
  999999 matches, it returns nothing and leaves the cursor at 1000000 (or where it was,
  if it was beyond). The digest function is arbitrary, SHA-256 included.
\<close>

theorem mine_block_search:
  "(current_nonce self \<le> k \<and> k < 1000000 \<and> startswith (H (b @ py_str k)) (target_hash self) \<and>
    (\<forall>j. current_nonce self \<le> j \<and> j < k \<longrightarrow> \<not> startswith (H (b @ py_str j)) (target_hash self))
    \<longrightarrow> mine_block H self b t0 t1 =
          (self\<lparr>current_nonce := k\<rparr>,
           Some \<lparr>hash = H (b @ py_str k), nonce = k, mining_time = t1 - t0, hashrate = mining_power self\<rparr>))
   \<and> ((\<forall>j. current_nonce self \<le> j \<and> j < 1000000 \<longrightarrow> \<not> startswith (H (b @ py_str j)) (target_hash self))
    \<longrightarrow> mine_block H self b t0 t1 = (self\<lparr>current_nonce := max (current_nonce self) 1000000\<rparr>, None))
   \<and> current_nonce (MiningSimulator_init d p) = 0"
proof (intro conjI impI)
  assume a: "current_nonce self \<le> k \<and> k < 1000000 \<and> startswith (H (b @ py_str k)) (target_hash self) \<and>
    (\<forall>j. current_nonce self \<le> j \<and> j < k \<longrightarrow> \<not> startswith (H (b @ py_str j)) (target_hash self))"
  then have "mine_loop H (target_hash self) b (current_nonce self) = (k, Some (H (b @ py_str k)))"
    by (intro mine_loop_first_match) simp_all
  then show "mine_block H self b t0 t1 =
          (self\<lparr>current_nonce := k\<rparr>,
           Some \<lparr>hash = H (b @ py_str k), nonce = k, mining_time = t1 - t0, hashrate = mining_power self\<rparr>)"
    by (simp add: mine_block_def)
next
  assume "\<forall>j. current_nonce self \<le> j \<and> j < 1000000 \<longrightarrow> \<not> startswith (H (b @ py_str j)) (target_hash self)"
  then have "mine_loop H (target_hash self) b (current_nonce self) = (max (current_nonce self) 1000000, None)"
    by (rule mine_loop_no_match)
  then show "mine_block H self b t0 t1 = (self\<lparr>current_nonce := max (current_nonce self) 1000000\<rparr>, None)"
    by (simp add: mine_block_def)
next
  show "current_nonce (MiningSimulator_init d p) = 0"
    by (simp add: MiningSimulator_init_def)
qed

text \<open>
  The theorem at the simulator \<open>miner_0\<close>, SHA-256 and the payload
  \<open>block_1_data_1012\<close>, whose first match is at the nonce 1, and at a new simulator
  with the length digest and the payload \<open>payload\<close>, where no nonce below 1000000
  matches.
\<close>

theorem mine_block_search_witness:
  "current_nonce miner_0 \<le> 1 \<and> (1 :: int) < 1000000 \<and>
   startswith (sha256_hexdigest (''block_1_data_1012'' @ py_str 1)) (target_hash miner_0) \<and>
   \<not> startswith (sha256_hexdigest (''block_1_data_1012'' @ py_str 0)) (target_hash miner_0) \<and>
   mine_block sha256_hexdigest miner_0 ''block_1_data_1012'' 0 1 =
     (miner_0\<lparr>current_nonce := 1\<rparr>,
      Some \<lparr>hash = sha256_hexdigest (''block_1_data_1012'' @ py_str 1), nonce = 1,
            mining_time = 1 - 0, hashrate = mining_power miner_0\<rparr>) \<and>
   mine_block digest_by_length (MiningSimulator_init 1000000 50) ''payload'' 0 1 =
     ((MiningSimulator_init 1000000 50)
        \<lparr>current_nonce := max (current_nonce (MiningSimulator_init 1000000 50)) 1000000\<rparr>, None)"
proof -
  let ?m = "MiningSimulator_init 1000000 50"
  have h1: "current_nonce miner_0 \<le> 1 \<and> (1 :: int) < 1000000 \<and>
      startswith (sha256_hexdigest (''block_1_data_1012'' @ py_str 1)) (target_hash miner_0)"
    by (simp add: miner_0_def py_str_digits sha_values startswith_def)
  have h0: "\<not> startswith (sha256_hexdigest (''block_1_data_1012'' @ py_str 0)) (target_hash miner_0)"
    by (simp add: miner_0_def py_str_digits sha_values startswith_def)
  have h2: "\<forall>j. current_nonce miner_0 \<le> j \<and> j < 1 \<longrightarrow>
      \<not> startswith (sha256_hexdigest (''block_1_data_1012'' @ py_str j)) (target_hash miner_0)"
  proof (intro allI impI)
    fix j :: int
    assume "current_nonce miner_0 \<le> j \<and> j < 1"
    then have "j = 0" by (simp add: miner_0_def)
    with h0 show "\<not> startswith (sha256_hexdigest (''block_1_data_1012'' @ py_str j)) (target_hash miner_0)"
      by simp
  qed
  from h1 h2 mine_block_search [of miner_0 1 sha256_hexdigest "''block_1_data_1012''" 0 1]
  have r1: "mine_block sha256_hexdigest miner_0 ''block_1_data_1012'' 0 1 =
     (miner_0\<lparr>current_nonce := 1\<rparr>,
      Some \<lparr>hash = sha256_hexdigest (''block_1_data_1012'' @ py_str 1), nonce = 1,
            mining_time = 1 - 0, hashrate = mining_power miner_0\<rparr>)"
    by blast
  from no_match_by_length mine_block_search [of ?m 0 digest_by_length "''payload''" 0 1]
  have r2: "mine_block digest_by_length ?m ''payload'' 0 1 =
     (?m\<lparr>current_nonce := max (current_nonce ?m) 1000000\<rparr>, None)"
    by blast
  from h1 h0 r1 r2 show ?thesis by blast
qed

text \<open>
  Claim C3 as stated fails on both counts. The reset: on the simulator of difficulty
  1000 after \<^verbatim>\<open>adjust_difficulty(600)\<close>, the payload \<open>block_1_data_1012\<close> is mined
  at the nonce 1; the next call on this simulator, for the payload
  \<open>block_2_data_1018\<close>, returns the nonce 1, although the SHA-256 digest of this payload
  with the nonce 0 starts with the target, which a search from 0 would have returned.
  The bound: with a digest function for which the nonce 1000000 matches for the payload
  \<open>payload\<close> and no smaller one does, the call on a new simulator returns nothing.
\<close>

theorem mine_block_bound_and_cursor:
  "adjust_difficulty (MiningSimulator_init 1000 50) 600 = (None, miner_0) \<and>
   mine_block sha256_hexdigest miner_0 ''block_1_data_1012'' 0 1 =
     (miner_1,
      Some \<lparr>hash = ''032baa4dcce8af572e0cc00abc7a094b6c2f3c36bb05364fafb52884ca6b5c89'',
            nonce = 1, mining_time = 1, hashrate = 50\<rparr>) \<and>
   startswith (sha256_hexdigest (''block_2_data_1018'' @ py_str 0)) (target_hash miner_1) \<and>
   mine_block sha256_hexdigest miner_1 ''block_2_data_1018'' 1 2 =
     (miner_1,
      Some \<lparr>hash = ''0184deb9025e39e904af99416b5d9c2d28015ff873abac41474bf2895ae8e2cd'',
            nonce = 1, mining_time = 1, hashrate = 50\<rparr>) \<and>
   startswith (digest_by_length (''payload'' @ py_str 1000000))
     (target_hash (MiningSimulator_init 1000000 50)) \<and>
   mine_block digest_by_length (MiningSimulator_init 1000000 50) ''payload'' 0 1 =
     (\<lparr>difficulty = 1000000, current_nonce = 1000000, target_hash = ''0000'', mining_power = 50\<rparr>,
      None)"
proof -
  have "startswith (digest_by_length (''payload'' @ py_str 1000000))
     (target_hash (MiningSimulator_init 1000000 50))"
    by (simp add: py_str_million digest_by_length_def startswith_def mining_eval)
  moreover have "startswith (sha256_hexdigest (''block_2_data_1018'' @ py_str 0)) (target_hash miner_1)"
    by (simp add: miner_1_def py_str_digits sha_values startswith_def)
  ultimately show ?thesis
    using miner_0_adjusted mine_block_length_payload mine_block_sha_block_1 mine_block_sha_block_2
    by blast
qed

text \<open>
  Claim C4, as amended: when \<^verbatim>\<open>mine_block\<close> is called on a simulator, and called again
  with the same payload on the simulator as the first call left it, or on any state of
  it with the cursor where the first call left it and the same target prefix, the second
  call returns the same hash and nonce as the first, or nothing if the first returned
  nothing, and leaves the cursor where it was. The clock readings may differ between
  the calls.
\<close>

theorem mine_block_twice:
  assumes "mine_block H self b s1 e1 = (self1, r1)"
    and "current_nonce self1' = current_nonce self1"
    and "target_hash self1' = target_hash self"
    and "mine_block H self1' b s2 e2 = (self2, r2)"
  shows "map_option (\<lambda>r. (hash r, nonce r)) r2 = map_option (\<lambda>r. (hash r, nonce r)) r1
       \<and> current_nonce self2 = current_nonce self1
       \<and> target_hash self1 = target_hash self"
proof -
  obtain n r where l: "mine_loop H (target_hash self) b (current_nonce self) = (n, r)"
    by (cases "mine_loop H (target_hash self) b (current_nonce self)")
  from assms(1) l have s1: "self1 = self\<lparr>current_nonce := n\<rparr>"
    by (auto simp: mine_block_def split: option.splits)
  from mine_loop_again [OF l] s1 assms(2,3)
  have l2: "mine_loop H (target_hash self1') b (current_nonce self1') = (n, r)"
    by simp
  from assms(1) l have "map_option (\<lambda>r. (hash r, nonce r)) r1 = map_option (\<lambda>h. (h, n)) r"
    by (auto simp: mine_block_def split: option.splits)
  moreover from assms(4) l2 have "map_option (\<lambda>r. (hash r, nonce r)) r2 = map_option (\<lambda>h. (h, n)) r"
    by (auto simp: mine_block_def split: option.splits)
  moreover from assms(4) l2 s1 have "current_nonce self2 = current_nonce self1"
    by (auto simp: mine_block_def split: option.splits)
  ultimately show ?thesis using s1 by simp
qed

text \<open>
  The theorem at the simulator \<open>miner_0\<close>, SHA-256 and the payload
  \<open>block_1_data_1012\<close>, called twice in a row at different times: both calls return
  the same digest and the nonce 1.
\<close>

theorem mine_block_twice_witness:
  "mine_block sha256_hexdigest miner_0 ''block_1_data_1012'' 0 1 =
     (miner_1,
      Some \<lparr>hash = ''032baa4dcce8af572e0cc00abc7a094b6c2f3c36bb05364fafb52884ca6b5c89'',
            nonce = 1, mining_time = 1, hashrate = 50\<rparr>) \<and>
   current_nonce miner_1 = current_nonce miner_1 \<and>
   target_hash miner_1 = target_hash miner_0 \<and>
   mine_block sha256_hexdigest miner_1 ''block_1_data_1012'' 5 7 =
     (miner_1,
      Some \<lparr>hash = ''032baa4dcce8af572e0cc00abc7a094b6c2f3c36bb05364fafb52884ca6b5c89'',
            nonce = 1, mining_time = 2, hashrate = 50\<rparr>) \<and>
   map_option (\<lambda>r. (hash r, nonce r))
     (Some \<lparr>hash = ''032baa4dcce8af572e0cc00abc7a094b6c2f3c36bb05364fafb52884ca6b5c89'',
            nonce = 1, mining_time = 2, hashrate = 50\<rparr>)
     = map_option (\<lambda>r. (hash r, nonce r))
     (Some \<lparr>hash = ''032baa4dcce8af572e0cc00abc7a094b6c2f3c36bb05364fafb52884ca6b5c89'',
            nonce = 1, mining_time = 1, hashrate = 50\<rparr>)"
proof -
  have c: "current_nonce miner_1 = current_nonce miner_1" by simp
  have t: "target_hash miner_1 = target_hash miner_0"
    by (simp add: miner_0_def miner_1_def)
  from mine_block_twice [OF mine_block_sha_block_1 c t mine_block_sha_block_1_again]
    mine_block_sha_block_1 mine_block_sha_block_1_again c t
  show ?thesis by blast
qed

text \<open>
  Claim C4 as stated fails when the cursor has moved between the two calls. On the
  simulator \<open>miner_0\<close> the payload \<open>block_2_data_1018\<close> is mined at the nonce 0, which
  leaves the cursor at 0; then the payload \<open>block_1_data_1012\<close> is mined at the nonce 1,
  which moves the cursor to 1 and leaves the target prefix as it was; then the payload
  \<open>block_2_data_1018\<close> is mined again, on the same simulator with the same target
  prefix, and the call returns the nonce 1 with another hash.
\<close>

theorem mine_block_twice_cursor_moved:
  "mine_block sha256_hexdigest miner_0 ''block_2_data_1018'' 0 1 =
     (miner_0,
      Some \<lparr>hash = ''02a752a9e8907e6455b67137c1a4c111006afb7d99a673b71f4deadd42667557'',
            nonce = 0, mining_time = 1, hashrate = 50\<rparr>) \<and>
   mine_block sha256_hexdigest miner_0 ''block_1_data_1012'' 2 3 =
     (miner_1,
      Some \<lparr>hash = ''032baa4dcce8af572e0cc00abc7a094b6c2f3c36bb05364fafb52884ca6b5c89'',
            nonce = 1, mining_time = 1, hashrate = 50\<rparr>) \<and>
   target_hash miner_1 = target_hash miner_0 \<and>
   mine_block sha256_hexdigest miner_1 ''block_2_data_1018'' 4 5 =
     (miner_1,
      Some \<lparr>hash = ''0184deb9025e39e904af99416b5d9c2d28015ff873abac41474bf2895ae8e2cd'',
            nonce = 1, mining_time = 1, hashrate = 50\<rparr>) \<and>
   map_option (\<lambda>r. (hash r, nonce r))
       (snd (mine_block sha256_hexdigest miner_1 ''block_2_data_1018'' 4 5))
     \<noteq> map_option (\<lambda>r. (hash r, nonce r))
       (snd (mine_block sha256_hexdigest miner_0 ''block_2_data_1018'' 0 1))"
proof -
  have t: "target_hash miner_1 = target_hash miner_0"
    by (simp add: miner_0_def miner_1_def)
  show ?thesis
    unfolding mine_block_sha_block_2_first mine_block_sha_block_1_at mine_block_sha_block_2_at
    using t by simp
qed

section \<open>Properties of the difficulty adjustment\<close>

text \<open>
  On a difficulty that is not negative, the truncated products are integer divisions.
\<close>

lemma py_int_three_halves: "0 \<le> d \<Longrightarrow> py_int (real_of_int d * 1.5) = 3 * d div 2"
proof -
  assume d: "0 \<le> d"
  have "real_of_int d * 1.5 = real_of_int (3 * d) / real_of_int 2" by simp
  then have "\<lfloor>real_of_int d * 1.5\<rfloor> = 3 * d div 2"
    by (simp only: floor_divide_of_int_eq)
  with d show ?thesis by (simp add: py_int_def)
qed

lemma py_int_three_quarters: "0 \<le> d \<Longrightarrow> py_int (real_of_int d * 0.75) = 3 * d div 4"
proof -
  assume d: "0 \<le> d"
  have "real_of_int d * 0.75 = real_of_int (3 * d) / real_of_int 4" by simp
  then have "\<lfloor>real_of_int d * 0.75\<rfloor> = 3 * d div 4"
    by (simp only: floor_divide_of_int_eq)
  with d show ?thesis by (simp add: py_int_def)
qed

text \<open>
  The difficulty after the call is the product, or the old difficulty when the product
  raises or the block time is between the two thresholds; the cursor is not touched.
  While three times the difficulty is below \<open>2 ^ 53\<close> nothing is raised, and the
  target is recomputed from the new difficulty.
\<close>

lemma difficulty_adjust_difficulty:
  "difficulty (snd (adjust_difficulty self t)) =
     (case (if t < 300 then int_times_float (difficulty self) 6
            else if t > 1200 then int_times_float (difficulty self) 3
            else Inr (difficulty self)) of
        Inl e \<Rightarrow> difficulty self
      | Inr d \<Rightarrow> d)"
  by (simp add: adjust_difficulty_def Let_def split: sum.splits)

lemma current_nonce_adjust_difficulty:
  "current_nonce (snd (adjust_difficulty self t)) = current_nonce self"
  by (cases "int_times_float (difficulty self) 6"; cases "int_times_float (difficulty self) 3")
    (simp_all add: adjust_difficulty_def Let_def split: sum.splits)

lemma str_repeat_in_range:
  "- (2 ^ 63) \<le> k \<Longrightarrow> k < 2 ^ 63 \<Longrightarrow> str_repeat s k = Inr (str_mul s k)"
  by (simp add: str_repeat_def sys_maxsize_def)

lemma adjust_difficulty_exact:
  assumes "0 \<le> difficulty self" and "3 * difficulty self < 2 ^ 53"
  shows "fst (adjust_difficulty self t) = None"
    and "difficulty (snd (adjust_difficulty self t)) =
      (if t < 300 then 3 * difficulty self div 2
       else if t > 1200 then 3 * difficulty self div 4
       else difficulty self)"
    and "target_hash (snd (adjust_difficulty self t)) =
      str_mul ''0'' (difficulty (snd (adjust_difficulty self t)) div 1000000 + 1)"
proof -
  have r: "str_repeat ''0'' (d div 1000000 + 1) = Inr (str_mul ''0'' (d div 1000000 + 1))"
    if "0 \<le> d" and "d < 2 ^ 53" for d :: int
  proof (rule str_repeat_in_range)
    from that have nonneg: "0 \<le> d div 1000000" by simp
    have "(0 :: int) < 2 ^ 63" by simp
    with nonneg show "- (2 ^ 63) \<le> d div 1000000 + 1" by linarith
    from that have le: "d div 1000000 \<le> d" by linarith
    have "(2 :: int) ^ 53 + 1 < 2 ^ 63" by simp
    with le that show "d div 1000000 + 1 < 2 ^ 63" by linarith
  qed
  have r0: "str_repeat ''0'' (difficulty self div 1000000 + 1)
      = Inr (str_mul ''0'' (difficulty self div 1000000 + 1))"
    using assms by (intro r) linarith+
  have r2: "str_repeat ''0'' (3 * difficulty self div 2 div 1000000 + 1)
      = Inr (str_mul ''0'' (3 * difficulty self div 2 div 1000000 + 1))"
    using assms by (intro r) linarith+
  have r4: "str_repeat ''0'' (3 * difficulty self div 4 div 1000000 + 1)
      = Inr (str_mul ''0'' (3 * difficulty self div 4 div 1000000 + 1))"
    using assms by (intro r) linarith+
  show "fst (adjust_difficulty self t) = None"
    and "difficulty (snd (adjust_difficulty self t)) =
      (if t < 300 then 3 * difficulty self div 2
       else if t > 1200 then 3 * difficulty self div 4
       else difficulty self)"
    and "target_hash (snd (adjust_difficulty self t)) =
      str_mul ''0'' (difficulty (snd (adjust_difficulty self t)) div 1000000 + 1)"
    using int_times_float_6 [OF assms] int_times_float_3 [OF assms] r0 r2 r4
    by (simp_all add: adjust_difficulty_def Let_def)
qed

lemma adjust_difficulty_overflow:
  assumes "2 ^ 1024 \<le> \<bar>difficulty self\<bar>" and "t < 300 \<or> 1200 < t"
  shows "adjust_difficulty self t = (Some OverflowError, self)"
  using assms int_times_float_overflow [OF assms(1)]
  by (auto simp add: adjust_difficulty_def Let_def)

text \<open>
  A target of more than \<^verbatim>\<open>sys.maxsize\<close> characters is not built: with the block time
  between the thresholds the call raises and changes nothing.
\<close>

lemma adjust_difficulty_target_too_long:
  assumes "300 \<le> t" and "t \<le> 1200" and "2 ^ 63 * 1000000 \<le> difficulty self"
  shows "adjust_difficulty self t = (Some OverflowError, self)"
proof -
  from assms(3) have "2 ^ 63 \<le> difficulty self div 1000000" by linarith
  then have "str_repeat ''0'' (difficulty self div 1000000 + 1) = Inl OverflowError"
    by (simp add: str_repeat_def sys_maxsize_def)
  with assms(1,2) show ?thesis by (simp add: adjust_difficulty_def Let_def)
qed

lemma str_mul_zero_2: "str_mul ''0'' 2 = ''00''"
  by (simp add: str_mul_def numeral_eq_Suc)

text \<open>
  Claim C5, as amended: for every positive difficulty \<open>d\<close> whose triple is below
  \<open>2 ^ 53\<close>, that is up to 3002399751580330, where the double products of the code are
  exact, \<^verbatim>\<open>adjust_difficulty\<close> raises nothing and sets the difficulty to the product with
  1.5 truncated toward zero, which is \<open>3 * d div 2\<close>, when the block time is below 300,
  to the product with 0.75 truncated toward zero, which is \<open>3 * d div 4\<close>, when it is
  above 1200, and leaves it unchanged otherwise. For these difficulties, with the block
  time 100 the difficulty strictly increases when it is at least 2, and the difficulty 1
  stays 1; with 1300 it strictly decreases. For every difficulty, with a block time from
  300 to 1200, and so with 600, the call leaves the difficulty unchanged.
\<close>

theorem adjust_difficulty_steps:
  "(0 < difficulty self \<and> 3 * difficulty self < 2 ^ 53 \<longrightarrow>
      fst (adjust_difficulty self t) = None
      \<and> difficulty (snd (adjust_difficulty self t)) =
           (if t < 300 then py_int (real_of_int (difficulty self) * 1.5)
            else if t > 1200 then py_int (real_of_int (difficulty self) * 0.75)
            else difficulty self)
      \<and> py_int (real_of_int (difficulty self) * 1.5) = 3 * difficulty self div 2
      \<and> py_int (real_of_int (difficulty self) * 0.75) = 3 * difficulty self div 4
      \<and> (2 \<le> difficulty self \<longrightarrow>
           difficulty self < difficulty (snd (adjust_difficulty self 100)))
      \<and> (difficulty self = 1 \<longrightarrow> difficulty (snd (adjust_difficulty self 100)) = 1)
      \<and> difficulty (snd (adjust_difficulty self 1300)) < difficulty self)
   \<and> (300 \<le> t \<and> t \<le> 1200 \<longrightarrow>
        difficulty (snd (adjust_difficulty self t)) = difficulty self)
   \<and> difficulty (snd (adjust_difficulty self 600)) = difficulty self"
proof (intro conjI impI)
  assume "300 \<le> t \<and> t \<le> 1200"
  then show "difficulty (snd (adjust_difficulty self t)) = difficulty self"
    by (simp add: difficulty_adjust_difficulty)
next
  show "difficulty (snd (adjust_difficulty self 600)) = difficulty self"
    by (simp add: difficulty_adjust_difficulty)
next
  assume a: "0 < difficulty self \<and> 3 * difficulty self < 2 ^ 53"
  then have nonneg: "0 \<le> difficulty self" and small: "3 * difficulty self < 2 ^ 53"
    by simp_all
  show up: "py_int (real_of_int (difficulty self) * 1.5) = 3 * difficulty self div 2"
    using nonneg by (rule py_int_three_halves)
  show down: "py_int (real_of_int (difficulty self) * 0.75) = 3 * difficulty self div 4"
    using nonneg by (rule py_int_three_quarters)
  show "fst (adjust_difficulty self t) = None"
    using nonneg small by (rule adjust_difficulty_exact)
  show "difficulty (snd (adjust_difficulty self t)) =
           (if t < 300 then py_int (real_of_int (difficulty self) * 1.5)
            else if t > 1200 then py_int (real_of_int (difficulty self) * 0.75)
            else difficulty self)"
    unfolding up down using nonneg small by (rule adjust_difficulty_exact)
  have at100: "difficulty (snd (adjust_difficulty self 100)) = 3 * difficulty self div 2"
    by (simp add: adjust_difficulty_exact(2) [OF nonneg small])
  have at1300: "difficulty (snd (adjust_difficulty self 1300)) = 3 * difficulty self div 4"
    by (simp add: adjust_difficulty_exact(2) [OF nonneg small])
  show "difficulty (snd (adjust_difficulty self 1300)) < difficulty self"
    unfolding at1300 using a by linarith
  {
    assume "2 \<le> difficulty self"
    then show "difficulty self < difficulty (snd (adjust_difficulty self 100))"
      unfolding at100 by linarith
  }
  {
    assume "difficulty self = 1"
    then show "difficulty (snd (adjust_difficulty self 100)) = 1"
      unfolding at100 by simp
  }
qed

text \<open>
  The theorem at the difficulty 1000, which becomes 1500, 750 and 1000 at the block
  times 100, 1300 and 600, and at the difficulty 1, which stays 1 at the block time 100.
\<close>

theorem adjust_difficulty_steps_witness:
  "0 < difficulty (MiningSimulator_init 1000 50) \<and>
   3 * difficulty (MiningSimulator_init 1000 50) < 2 ^ 53 \<and>
   2 \<le> difficulty (MiningSimulator_init 1000 50) \<and>
   fst (adjust_difficulty (MiningSimulator_init 1000 50) 100) = None \<and>
   difficulty (snd (adjust_difficulty (MiningSimulator_init 1000 50) 100)) = 1500 \<and>
   difficulty (snd (adjust_difficulty (MiningSimulator_init 1000 50) 1300)) = 750 \<and>
   (300 :: real) \<le> 600 \<and> (600 :: real) \<le> 1200 \<and>
   difficulty (snd (adjust_difficulty (MiningSimulator_init 1000 50) 600)) = 1000 \<and>
   difficulty (MiningSimulator_init 1000 50)
     < difficulty (snd (adjust_difficulty (MiningSimulator_init 1000 50) 100)) \<and>
   difficulty (snd (adjust_difficulty (MiningSimulator_init 1000 50) 1300))
     < difficulty (MiningSimulator_init 1000 50) \<and>
   0 < difficulty (MiningSimulator_init 1 50) \<and>
   3 * difficulty (MiningSimulator_init 1 50) < 2 ^ 53 \<and>
   difficulty (MiningSimulator_init 1 50) = 1 \<and>
   difficulty (snd (adjust_difficulty (MiningSimulator_init 1 50) 100)) = 1"
proof -
  have h: "0 < difficulty (MiningSimulator_init 1000 50) \<and>
      3 * difficulty (MiningSimulator_init 1000 50) < 2 ^ 53"
    "2 \<le> difficulty (MiningSimulator_init 1000 50)"
    by (simp_all add: MiningSimulator_init_def)
  have h1: "0 < difficulty (MiningSimulator_init 1 50) \<and>
      3 * difficulty (MiningSimulator_init 1 50) < 2 ^ 53"
    "difficulty (MiningSimulator_init 1 50) = 1"
    by (simp_all add: MiningSimulator_init_def)
  have t: "(300 :: real) \<le> 600 \<and> (600 :: real) \<le> 1200" by simp
  have v: "difficulty (snd (adjust_difficulty (MiningSimulator_init 1000 50) 100)) = 1500"
    "difficulty (snd (adjust_difficulty (MiningSimulator_init 1000 50) 1300)) = 750"
    "difficulty (snd (adjust_difficulty (MiningSimulator_init 1000 50) 600)) = 1000"
    by (simp_all add: mining_eval)
  from adjust_difficulty_steps [of "MiningSimulator_init 1000 50" 100]
    adjust_difficulty_steps [of "MiningSimulator_init 1000 50" 600]
    adjust_difficulty_steps [of "MiningSimulator_init 1 50" 100] h h1 t v
  show ?thesis by blast
qed

text \<open>
  Claim C5 as stated fails at the difficulty 1: with the block time 100 the product 1.5
  is truncated to 1, and the difficulty does not increase. It fails at the difficulty
  3002399751580333 as well, where the double products are rounded: the difficulty becomes
  4503599627370500 and 2251799813685250, one more than the products truncated toward
  zero. At the difficulty \<open>2 ^ 1024\<close> the call with the block time 100 raises and leaves
  the difficulty as it was.
\<close>

theorem adjust_difficulty_one_and_rounding:
  "0 < difficulty (MiningSimulator_init 1 50) \<and>
   difficulty (snd (adjust_difficulty (MiningSimulator_init 1 50) 100)) = 1 \<and>
   \<not> difficulty (MiningSimulator_init 1 50)
       < difficulty (snd (adjust_difficulty (MiningSimulator_init 1 50) 100)) \<and>
   0 < difficulty (MiningSimulator_init 3002399751580333 50) \<and>
   difficulty (snd (adjust_difficulty (MiningSimulator_init 3002399751580333 50) 100))
     = 4503599627370500 \<and>
   py_int (real_of_int (difficulty (MiningSimulator_init 3002399751580333 50)) * 1.5)
     = 4503599627370499 \<and>
   difficulty (snd (adjust_difficulty (MiningSimulator_init 3002399751580333 50) 1300))
     = 2251799813685250 \<and>
   py_int (real_of_int (difficulty (MiningSimulator_init 3002399751580333 50)) * 0.75)
     = 2251799813685249 \<and>
   0 < difficulty (MiningSimulator_init (2 ^ 1024) 50) \<and>
   adjust_difficulty (MiningSimulator_init (2 ^ 1024) 50) 100
     = (Some OverflowError, MiningSimulator_init (2 ^ 1024) 50)"
proof -
  have one: "0 < difficulty (MiningSimulator_init 1 50)"
    "difficulty (snd (adjust_difficulty (MiningSimulator_init 1 50) 100)) = 1"
    by (simp_all add: mining_eval)
  have d: "difficulty (MiningSimulator_init 3002399751580333 50) = 3002399751580333"
    by (simp add: MiningSimulator_init_def)
  have code: "difficulty (snd (adjust_difficulty (MiningSimulator_init 3002399751580333 50) 100))
      = 4503599627370500"
    "difficulty (snd (adjust_difficulty (MiningSimulator_init 3002399751580333 50) 1300))
      = 2251799813685250"
    by (simp_all add: difficulty_adjust_difficulty d int_times_float_rounded)
  have exact: "py_int (real_of_int (difficulty (MiningSimulator_init 3002399751580333 50)) * 1.5)
      = 4503599627370499"
    "py_int (real_of_int (difficulty (MiningSimulator_init 3002399751580333 50)) * 0.75)
      = 2251799813685249"
    unfolding d by (simp_all only: py_int_three_halves py_int_three_quarters)
  have big: "2 ^ 1024 \<le> \<bar>difficulty (MiningSimulator_init (2 ^ 1024) 50)\<bar>"
    "0 < difficulty (MiningSimulator_init (2 ^ 1024) 50)"
    by (simp_all add: MiningSimulator_init_def)
  have raised: "adjust_difficulty (MiningSimulator_init (2 ^ 1024) 50) 100
     = (Some OverflowError, MiningSimulator_init (2 ^ 1024) 50)"
    using big(1) by (rule adjust_difficulty_overflow) simp
  from one d code exact big(2) raised show ?thesis by simp
qed

text \<open>
  Claim C6, as amended: for every positive starting difficulty and every block time,
  except the starting difficulty 1 with a block time above 1200, the difficulty after
  \<^verbatim>\<open>adjust_difficulty\<close> is positive; the difficulty 1 with a block time above 1200
  becomes 0. This holds of the double products for every positive difficulty: the
  rounding keeps the product positive, and a call that raises leaves the difficulty as
  it was.
\<close>

theorem adjust_difficulty_positive:
  assumes "0 < difficulty self"
  shows "(difficulty self \<noteq> 1 \<or> t \<le> 1200 \<longrightarrow> 0 < difficulty (snd (adjust_difficulty self t)))
       \<and> (difficulty self = 1 \<and> 1200 < t \<longrightarrow> difficulty (snd (adjust_difficulty self t)) = 0)"
proof -
  have up: "0 < (case int_times_float (difficulty self) 6 of Inl e \<Rightarrow> difficulty self | Inr d \<Rightarrow> d)"
    using assms int_times_float_positive [OF assms, of 6]
    by (simp split: sum.splits)
  have down: "difficulty self \<noteq> 1 \<Longrightarrow>
      0 < (case int_times_float (difficulty self) 3 of Inl e \<Rightarrow> difficulty self | Inr d \<Rightarrow> d)"
    using assms int_times_float_positive [OF assms, of 3]
    by (simp split: sum.splits)
  have one: "difficulty self = 1 \<Longrightarrow>
      (case int_times_float (difficulty self) 3 of Inl e \<Rightarrow> difficulty self | Inr d \<Rightarrow> d) = 0"
    by (simp add: int_times_float_one)
  show ?thesis
    unfolding difficulty_adjust_difficulty using assms up down one by auto
qed

text \<open>
  The theorem at the difficulty 1000 and the block time 1300, where the difficulty
  becomes 750, and at the difficulty 1 and the block times 100 and 1300.
\<close>

theorem adjust_difficulty_positive_witness:
  "0 < difficulty (MiningSimulator_init 1000 50) \<and>
   difficulty (MiningSimulator_init 1000 50) \<noteq> 1 \<and>
   0 < difficulty (snd (adjust_difficulty (MiningSimulator_init 1000 50) 1300)) \<and>
   0 < difficulty (MiningSimulator_init 1 50) \<and>
   (100 :: real) \<le> 1200 \<and>
   0 < difficulty (snd (adjust_difficulty (MiningSimulator_init 1 50) 100)) \<and>
   difficulty (MiningSimulator_init 1 50) = 1 \<and> (1200 :: real) < 1300 \<and>
   difficulty (snd (adjust_difficulty (MiningSimulator_init 1 50) 1300)) = 0"
proof -
  have h: "0 < difficulty (MiningSimulator_init 1000 50)" "difficulty (MiningSimulator_init 1000 50) \<noteq> 1"
    by (simp_all add: MiningSimulator_init_def)
  have h1: "0 < difficulty (MiningSimulator_init 1 50)" "difficulty (MiningSimulator_init 1 50) = 1"
    by (simp_all add: MiningSimulator_init_def)
  have t: "(100 :: real) \<le> 1200" "(1200 :: real) < 1300" by simp_all
  from adjust_difficulty_positive [OF h(1), of 1300] adjust_difficulty_positive [OF h1(1), of 100]
    adjust_difficulty_positive [OF h1(1), of 1300] h h1 t
  show ?thesis by blast
qed

text \<open>
  Claim C6 as stated fails at the difficulty 1 and the block time 1300: the product 0.75
  is truncated to 0, which is not positive.
\<close>

theorem adjust_difficulty_one_to_zero:
  "0 < difficulty (MiningSimulator_init 1 50) \<and>
   difficulty (snd (adjust_difficulty (MiningSimulator_init 1 50) 1300)) = 0 \<and>
   \<not> 0 < difficulty (snd (adjust_difficulty (MiningSimulator_init 1 50) 1300))"
  by (simp add: mining_eval)

text \<open>
  Claim C7, as amended: the target prefix of a new simulator is the four characters
  \<open>0000\<close>, whatever the difficulty, and its cursor is 0. On a simulator whose difficulty
  is between 0 and 999999, \<^verbatim>\<open>adjust_difficulty\<close> raises nothing, keeps the cursor and
  sets the target prefix to the one character \<open>0\<close>, or to the two characters \<open>00\<close> when
  the block time is below 300 and the difficulty is 666667 or more, which the call
  raises to 1000000 or more; the target prefix is not empty. A call of \<^verbatim>\<open>mine_block\<close>
  whose cursor is below 1000000 returns a result at the cursor's nonce exactly when the
  digest of the payload and that nonce starts with the target prefix. On a simulator
  whose target prefix is empty and whose cursor is below 1000000, the call returns a
  result at the cursor's nonce at once. With the cursor at 1000000 or more, the call
  returns nothing, whatever the target prefix.
\<close>

theorem target_prefix_and_first_nonce:
  "target_hash (MiningSimulator_init d p) = ''0000''
   \<and> current_nonce (MiningSimulator_init d p) = 0
   \<and> (0 \<le> difficulty self \<and> difficulty self \<le> 999999 \<longrightarrow>
        fst (adjust_difficulty self t) = None
        \<and> target_hash (snd (adjust_difficulty self t)) =
            (if t < 300 \<and> 666667 \<le> difficulty self then ''00'' else ''0'')
        \<and> current_nonce (snd (adjust_difficulty self t)) = current_nonce self)
   \<and> (current_nonce self < 1000000 \<longrightarrow>
        ((\<exists>r. snd (mine_block H self b t0 t1) = Some r \<and> nonce r = current_nonce self)
          \<longleftrightarrow> startswith (H (b @ py_str (current_nonce self))) (target_hash self)))
   \<and> (current_nonce self < 1000000 \<and> target_hash self = [] \<longrightarrow>
        mine_block H self b t0 t1 =
          (self, Some \<lparr>hash = H (b @ py_str (current_nonce self)), nonce = current_nonce self,
                       mining_time = t1 - t0, hashrate = mining_power self\<rparr>))
   \<and> (1000000 \<le> current_nonce self \<longrightarrow> mine_block H self b t0 t1 = (self, None))"
proof (intro conjI impI)
  show "target_hash (MiningSimulator_init d p) = ''0000''"
    by (simp add: MiningSimulator_init_def str_mul_zero_4)
  show "current_nonce (MiningSimulator_init d p) = 0"
    by (simp add: MiningSimulator_init_def)
  show "current_nonce (snd (adjust_difficulty self t)) = current_nonce self"
    by (rule current_nonce_adjust_difficulty)
next
  assume a: "0 \<le> difficulty self \<and> difficulty self \<le> 999999"
  then have nonneg: "0 \<le> difficulty self" and small: "3 * difficulty self < 2 ^ 53"
    by simp_all
  show "fst (adjust_difficulty self t) = None"
    using nonneg small by (rule adjust_difficulty_exact)
  have up: "(3 * difficulty self div 2) div 1000000 = (if 666667 \<le> difficulty self then 1 else 0)"
    using a by (simp add: div_pos_pos_trivial) linarith
  have down: "(3 * difficulty self div 4) div 1000000 = 0"
    using a by (intro div_pos_pos_trivial) linarith+
  have same: "difficulty self div 1000000 = 0"
    using a by (intro div_pos_pos_trivial) linarith+
  show "target_hash (snd (adjust_difficulty self t)) =
            (if t < 300 \<and> 666667 \<le> difficulty self then ''00'' else ''0'')"
    unfolding adjust_difficulty_exact(3) [OF nonneg small] adjust_difficulty_exact(2) [OF nonneg small]
    using up down same by (simp add: str_mul_zero_1 str_mul_zero_2)
next
  assume "current_nonce self < 1000000"
  then show "(\<exists>r. snd (mine_block H self b t0 t1) = Some r \<and> nonce r = current_nonce self)
          \<longleftrightarrow> startswith (H (b @ py_str (current_nonce self))) (target_hash self)"
    by (rule mine_block_at_cursor)
next
  assume a: "current_nonce self < 1000000 \<and> target_hash self = []"
  then have "startswith (H (b @ py_str (current_nonce self))) (target_hash self)"
    by (simp add: startswith_def)
  with a have "mine_loop H (target_hash self) b (current_nonce self) =
        (current_nonce self, Some (H (b @ py_str (current_nonce self))))"
    by (intro mine_loop_hit) simp_all
  then show "mine_block H self b t0 t1 =
          (self, Some \<lparr>hash = H (b @ py_str (current_nonce self)), nonce = current_nonce self,
                       mining_time = t1 - t0, hashrate = mining_power self\<rparr>)"
    by (simp add: mine_block_def)
next
  assume "1000000 \<le> current_nonce self"
  then have "mine_loop H (target_hash self) b (current_nonce self) = (current_nonce self, None)"
    by (subst mine_loop.simps) simp
  then show "mine_block H self b t0 t1 = (self, None)"
    by (simp add: mine_block_def)
qed

text \<open>
  The theorem at the difficulty 999999, whose target after the block time 600 is \<open>0\<close>;
  at the difficulty 900000, which the block time 100 raises to 1350000, with the target
  \<open>00\<close>; at the simulator \<open>miner_0\<close> with SHA-256, which returns the nonce 0 for the
  payload \<open>block_2_data_1018\<close>; at the simulator of difficulty \<open>- 5\<close>, whose adjusted
  target is empty and which returns the nonce 0 for the payload \<open>payload\<close>; and at a
  simulator with an empty target and the cursor at 1000000, which returns nothing.
\<close>

theorem target_prefix_and_first_nonce_witness:
  "0 \<le> difficulty (MiningSimulator_init 999999 50) \<and>
   difficulty (MiningSimulator_init 999999 50) \<le> 999999 \<and>
   fst (adjust_difficulty (MiningSimulator_init 999999 50) 600) = None \<and>
   target_hash (snd (adjust_difficulty (MiningSimulator_init 999999 50) 600)) = ''0'' \<and>
   0 \<le> difficulty (MiningSimulator_init 900000 50) \<and>
   difficulty (MiningSimulator_init 900000 50) \<le> 999999 \<and>
   difficulty (snd (adjust_difficulty (MiningSimulator_init 900000 50) 100)) = 1350000 \<and>
   target_hash (snd (adjust_difficulty (MiningSimulator_init 900000 50) 100)) = ''00'' \<and>
   current_nonce miner_0 < 1000000 \<and>
   startswith (sha256_hexdigest (''block_2_data_1018'' @ py_str (current_nonce miner_0)))
     (target_hash miner_0) \<and>
   (\<exists>r. snd (mine_block sha256_hexdigest miner_0 ''block_2_data_1018'' 0 1) = Some r \<and> nonce r = 0) \<and>
   current_nonce (snd (adjust_difficulty (MiningSimulator_init (- 5) 50) 600)) < 1000000 \<and>
   target_hash (snd (adjust_difficulty (MiningSimulator_init (- 5) 50) 600)) = [] \<and>
   mine_block sha256_hexdigest (snd (adjust_difficulty (MiningSimulator_init (- 5) 50) 600))
       ''payload'' 0 1 =
     (snd (adjust_difficulty (MiningSimulator_init (- 5) 50) 600),
      Some \<lparr>hash = ''f5deb23a5b22acfcd60e56169e498b2f0246b397ec86fd74282031aa3e7b40a2'',
            nonce = 0, mining_time = 1, hashrate = 50\<rparr>) \<and>
   1000000 \<le> current_nonce
     \<lparr>difficulty = - 5, current_nonce = 1000000, target_hash = [], mining_power = 50\<rparr> \<and>
   mine_block sha256_hexdigest
       \<lparr>difficulty = - 5, current_nonce = 1000000, target_hash = [], mining_power = 50\<rparr>
       ''payload'' 0 1 =
     (\<lparr>difficulty = - 5, current_nonce = 1000000, target_hash = [], mining_power = 50\<rparr>, None)"
proof -
  let ?m = "MiningSimulator_init 999999 50"
  let ?k = "MiningSimulator_init 900000 50"
  let ?e = "snd (adjust_difficulty (MiningSimulator_init (- 5) 50) 600)"
  let ?f = "\<lparr>difficulty = - 5, current_nonce = 1000000, target_hash = [], mining_power = 50\<rparr>"
  have a: "0 \<le> difficulty ?m \<and> difficulty ?m \<le> 999999"
    by (simp add: MiningSimulator_init_def)
  from a target_prefix_and_first_nonce [where self = ?m and t = 600]
  have "fst (adjust_difficulty ?m 600) = None \<and>
      target_hash (snd (adjust_difficulty ?m 600)) =
        (if (600 :: real) < 300 \<and> 666667 \<le> difficulty ?m then ''00'' else ''0'')"
    by blast
  then have r1: "fst (adjust_difficulty ?m 600) = None"
    "target_hash (snd (adjust_difficulty ?m 600)) = ''0''"
    by simp_all
  have k: "0 \<le> difficulty ?k \<and> difficulty ?k \<le> 999999"
    by (simp add: MiningSimulator_init_def)
  have k': "difficulty (snd (adjust_difficulty ?k 100)) = 1350000"
    by (simp add: mining_eval)
  from k target_prefix_and_first_nonce [where self = ?k and t = 100]
  have "target_hash (snd (adjust_difficulty ?k 100)) =
        (if (100 :: real) < 300 \<and> 666667 \<le> difficulty ?k then ''00'' else ''0'')"
    by blast
  then have r1': "target_hash (snd (adjust_difficulty ?k 100)) = ''00''"
    by (simp add: MiningSimulator_init_def)
  have b: "current_nonce miner_0 < 1000000" "current_nonce miner_0 = 0"
    by (simp_all add: miner_0_def)
  have b': "startswith (sha256_hexdigest (''block_2_data_1018'' @ py_str (current_nonce miner_0)))
     (target_hash miner_0)"
    by (simp add: miner_0_def py_str_digits sha_values startswith_def)
  from b(1) b' target_prefix_and_first_nonce
    [where self = miner_0 and H = sha256_hexdigest and b = "''block_2_data_1018''" and ?t0.0 = 0 and ?t1.0 = 1]
  have "\<exists>r. snd (mine_block sha256_hexdigest miner_0 ''block_2_data_1018'' 0 1) = Some r
      \<and> nonce r = current_nonce miner_0"
    by blast
  then have r2: "\<exists>r. snd (mine_block sha256_hexdigest miner_0 ''block_2_data_1018'' 0 1) = Some r
      \<and> nonce r = 0"
    by (simp add: b(2))
  have e: "?e = \<lparr>difficulty = - 5, current_nonce = 0, target_hash = [], mining_power = 50\<rparr>"
    by (simp add: adjust_difficulty_def MiningSimulator_init_def str_repeat_def sys_maxsize_def
        str_mul_nonpos)
  have c: "current_nonce ?e < 1000000 \<and> target_hash ?e = []"
    by (simp add: e)
  have c': "current_nonce ?e = 0" "mining_power ?e = 50"
    by (simp_all add: e)
  from c target_prefix_and_first_nonce
    [where self = ?e and H = sha256_hexdigest and b = "''payload''" and ?t0.0 = 0 and ?t1.0 = 1]
  have "mine_block sha256_hexdigest ?e ''payload'' 0 1 =
     (?e, Some \<lparr>hash = sha256_hexdigest (''payload'' @ py_str (current_nonce ?e)),
                 nonce = current_nonce ?e, mining_time = 1 - 0, hashrate = mining_power ?e\<rparr>)"
    by blast
  then have r3: "mine_block sha256_hexdigest ?e ''payload'' 0 1 =
     (?e, Some \<lparr>hash = ''f5deb23a5b22acfcd60e56169e498b2f0246b397ec86fd74282031aa3e7b40a2'',
                 nonce = 0, mining_time = 1, hashrate = 50\<rparr>)"
    by (simp add: c' py_str_digits sha_values)
  have f: "1000000 \<le> current_nonce ?f" by simp
  from f target_prefix_and_first_nonce
    [where self = ?f and H = sha256_hexdigest and b = "''payload''" and ?t0.0 = 0 and ?t1.0 = 1]
  have r4: "mine_block sha256_hexdigest ?f ''payload'' 0 1 = (?f, None)"
    by blast
  from a r1 k k' r1' b(1) b' r2 c r3 f r4 show ?thesis by blast
qed

text \<open>
  Claim C7 as stated fails at the difficulty 999999: the target prefix of the new
  simulator has length 4, and after \<^verbatim>\<open>adjust_difficulty\<close> it has length 1, not 0.
  The SHA-256 digest of \<open>payload0\<close> starts with \<open>f\<close>, so that with either target the
  call for the payload \<open>payload\<close> returns no result at the nonce 0.
\<close>

theorem target_prefix_not_empty:
  "difficulty (MiningSimulator_init 999999 50) \<le> 999999 \<and>
   target_hash (MiningSimulator_init 999999 50) = ''0000'' \<and>
   length (target_hash (MiningSimulator_init 999999 50)) \<noteq> 0 \<and>
   difficulty (snd (adjust_difficulty (MiningSimulator_init 999999 50) 600)) \<le> 999999 \<and>
   target_hash (snd (adjust_difficulty (MiningSimulator_init 999999 50) 600)) = ''0'' \<and>
   length (target_hash (snd (adjust_difficulty (MiningSimulator_init 999999 50) 600))) \<noteq> 0 \<and>
   \<not> (\<exists>r. snd (mine_block sha256_hexdigest (MiningSimulator_init 999999 50) ''payload'' 0 1) = Some r
          \<and> nonce r = 0) \<and>
   \<not> (\<exists>r. snd (mine_block sha256_hexdigest
                  (snd (adjust_difficulty (MiningSimulator_init 999999 50) 600))
                  ''payload'' 0 1) = Some r
          \<and> nonce r = 0)"
proof -
  let ?n = "MiningSimulator_init 999999 50"
  let ?m = "snd (adjust_difficulty (MiningSimulator_init 999999 50) 600)"
  have n: "current_nonce ?n = 0" "target_hash ?n = ''0000''" "difficulty ?n \<le> 999999"
    by (simp_all add: mining_eval)
  have m: "current_nonce ?m = 0" "target_hash ?m = ''0''" "difficulty ?m \<le> 999999"
    by (simp_all add: mining_eval)
  have "\<not> startswith (sha256_hexdigest (''payload'' @ py_str (current_nonce ?n))) (target_hash ?n)"
    by (simp add: n py_str_digits sha_values startswith_def)
  with mine_block_at_cursor [of ?n sha256_hexdigest "''payload''" 0 1] n
  have r1: "\<not> (\<exists>r. snd (mine_block sha256_hexdigest ?n ''payload'' 0 1) = Some r \<and> nonce r = 0)"
    by simp
  have "\<not> startswith (sha256_hexdigest (''payload'' @ py_str (current_nonce ?m))) (target_hash ?m)"
    by (simp add: m py_str_digits sha_values startswith_def)
  with mine_block_at_cursor [of ?m sha256_hexdigest "''payload''" 0 1] m
  have r2: "\<not> (\<exists>r. snd (mine_block sha256_hexdigest ?m ''payload'' 0 1) = Some r \<and> nonce r = 0)"
    by simp
  from n m r1 r2 show ?thesis by simp
qed

section \<open>Properties of the node metrics\<close>

lemma update_metrics_in_range:
  "1 \<le> latency (network_metrics (update_metrics self d)) \<and>
   latency (network_metrics (update_metrics self d)) \<le> 500 \<and>
   0.1 \<le> bandwidth (network_metrics (update_metrics self d)) \<and>
   bandwidth (network_metrics (update_metrics self d)) \<le> 200 \<and>
   0 \<le> cpu_usage (node_metrics (update_metrics self d)) \<and>
   cpu_usage (node_metrics (update_metrics self d)) \<le> 100 \<and>
   50 \<le> memory_usage (node_metrics (update_metrics self d)) \<and>
   memory_usage (node_metrics (update_metrics self d)) \<le> 4000"
  by (simp add: update_metrics_def Let_def max_def min_def)

lemma update_metrics_clamp:
  "latency (network_metrics (update_metrics self d)) =
     max 1 (min 500 (latency (network_metrics self) + d_latency d)) \<and>
   bandwidth (network_metrics (update_metrics self d)) =
     max 0.1 (min 200 (bandwidth (network_metrics self) + d_bandwidth d)) \<and>
   cpu_usage (node_metrics (update_metrics self d)) =
     max 0 (min 100 (cpu_usage (node_metrics self) + d_cpu d)) \<and>
   memory_usage (node_metrics (update_metrics self d)) =
     max 50 (min 4000 (memory_usage (node_metrics self) + d_memory d))"
  by (simp add: update_metrics_def Let_def)

text \<open>
  Claim C8: a call of \<^verbatim>\<open>update_metrics\<close> adds the draw to each of the four metrics and
  clamps the sum: the latency to \<open>[1, 500]\<close>, the bandwidth to \<open>[0.1, 200]\<close>, the CPU
  usage to \<open>[0, 100]\<close> and the memory usage to \<open>[50, 4000]\<close>. So for every node, whatever its metrics are, and every
  sequence of draws, after any number of calls and one more, each of the four metrics
  is the clamped sum of its value before the last call and the draw, and lies in its
  range. Nothing is assumed about the draws: the clamp comes after the perturbation.
\<close>

theorem update_metrics_clamped:
  "latency (network_metrics (update_metrics (fold (\<lambda>d n. update_metrics n d) ds node) d)) =
     max 1 (min 500 (latency (network_metrics (fold (\<lambda>d n. update_metrics n d) ds node))
                      + d_latency d)) \<and>
   bandwidth (network_metrics (update_metrics (fold (\<lambda>d n. update_metrics n d) ds node) d)) =
     max 0.1 (min 200 (bandwidth (network_metrics (fold (\<lambda>d n. update_metrics n d) ds node))
                        + d_bandwidth d)) \<and>
   cpu_usage (node_metrics (update_metrics (fold (\<lambda>d n. update_metrics n d) ds node) d)) =
     max 0 (min 100 (cpu_usage (node_metrics (fold (\<lambda>d n. update_metrics n d) ds node))
                      + d_cpu d)) \<and>
   memory_usage (node_metrics (update_metrics (fold (\<lambda>d n. update_metrics n d) ds node) d)) =
     max 50 (min 4000 (memory_usage (node_metrics (fold (\<lambda>d n. update_metrics n d) ds node))
                        + d_memory d)) \<and>
   1 \<le> latency (network_metrics (update_metrics (fold (\<lambda>d n. update_metrics n d) ds node) d)) \<and>
   latency (network_metrics (update_metrics (fold (\<lambda>d n. update_metrics n d) ds node) d)) \<le> 500 \<and>
   0.1 \<le> bandwidth (network_metrics (update_metrics (fold (\<lambda>d n. update_metrics n d) ds node) d)) \<and>
   bandwidth (network_metrics (update_metrics (fold (\<lambda>d n. update_metrics n d) ds node) d)) \<le> 200 \<and>
   0 \<le> cpu_usage (node_metrics (update_metrics (fold (\<lambda>d n. update_metrics n d) ds node) d)) \<and>
   cpu_usage (node_metrics (update_metrics (fold (\<lambda>d n. update_metrics n d) ds node) d)) \<le> 100 \<and>
   50 \<le> memory_usage (node_metrics (update_metrics (fold (\<lambda>d n. update_metrics n d) ds node) d)) \<and>
   memory_usage (node_metrics (update_metrics (fold (\<lambda>d n. update_metrics n d) ds node) d)) \<le> 4000"
  using update_metrics_clamp [of "fold (\<lambda>d n. update_metrics n d) ds node" d]
    update_metrics_in_range [of "fold (\<lambda>d n. update_metrics n d) ds node" d]
  by blast

section \<open>Properties of the network statistics\<close>

lemma get_network_statistics_ok:
  assumes "nodes self \<noteq> []" and "total_bandwidth self \<noteq> 0"
  shows "get_network_statistics h self =
     Inr \<lparr>total_nodes = length (nodes self),
          online_nodes = length (online_nodes_of h self),
          network_load_percent = round1 (network_load self / total_bandwidth self * 100),
          average_latency =
            (if online_nodes_of h self \<noteq> []
             then round1 (sum_list (map (\<lambda>n. latency (network_metrics n)) (online_nodes_of h self))
                    / real (length (online_nodes_of h self)))
             else 0),
          average_bandwidth =
            (if online_nodes_of h self \<noteq> []
             then round1 (sum_list (map (\<lambda>n. bandwidth (network_metrics n)) (online_nodes_of h self))
                    / real (length (online_nodes_of h self)))
             else 0),
          total_connections = sum_list (map connection_count (online_nodes_of h self)),
          network_health = (case calculate_network_health h self of Inr l \<Rightarrow> l | Inl e \<Rightarrow> Bad)\<rparr>"
  using assms by (simp add: get_network_statistics_def calculate_network_health_def Let_def)

text \<open>On an empty registry the division of the health ratio raises.\<close>

lemma get_network_statistics_empty:
  "nodes self = [] \<Longrightarrow> get_network_statistics h self = Inl ZeroDivisionError"
  by (simp add: get_network_statistics_def calculate_network_health_def Let_def)

text \<open>
  Claim C9: on a registry that is not empty (and with the total bandwidth not zero; the
  constructor sets it to 1000 and nothing changes it), \<^verbatim>\<open>get_network_statistics\<close>
  raises nothing, and its two averages are those of the latencies and of the bandwidths
  of the nodes whose status is \<open>online\<close>, rounded to one decimal place; when no node is
  online, both are 0.
\<close>

theorem statistics_averages_online_only:
  assumes "nodes self \<noteq> []" and "total_bandwidth self \<noteq> 0"
  shows "\<exists>st. get_network_statistics h self = Inr st
    \<and> online_nodes st = length (filter (\<lambda>n. status n = ''online'') (map h (nodes self)))
    \<and> average_latency st =
        (if filter (\<lambda>n. status n = ''online'') (map h (nodes self)) = [] then 0
         else round1 (sum_list (map (\<lambda>n. latency (network_metrics n))
                                   (filter (\<lambda>n. status n = ''online'') (map h (nodes self))))
                      / real (length (filter (\<lambda>n. status n = ''online'') (map h (nodes self))))))
    \<and> average_bandwidth st =
        (if filter (\<lambda>n. status n = ''online'') (map h (nodes self)) = [] then 0
         else round1 (sum_list (map (\<lambda>n. bandwidth (network_metrics n))
                                   (filter (\<lambda>n. status n = ''online'') (map h (nodes self))))
                      / real (length (filter (\<lambda>n. status n = ''online'') (map h (nodes self))))))"
  unfolding get_network_statistics_ok [OF assms]
  by (simp add: online_nodes_of_def)

text \<open>
  The theorem at the simulator of two addresses: with the store of offline nodes both
  averages are 0, and with the store of online nodes, each of latency 35 and bandwidth
  50, they are 35 and 50.
\<close>

theorem statistics_averages_online_only_witness:
  "nodes sim_two \<noteq> [] \<and> total_bandwidth sim_two \<noteq> 0 \<and>
   (\<exists>st. get_network_statistics store_offline sim_two = Inr st \<and> online_nodes st = 0
      \<and> average_latency st = 0 \<and> average_bandwidth st = 0) \<and>
   (\<exists>st. get_network_statistics store_online sim_two = Inr st \<and> online_nodes st = 2
      \<and> average_latency st = 35 \<and> average_bandwidth st = 50)"
proof -
  have h: "nodes sim_two \<noteq> []" "total_bandwidth sim_two \<noteq> 0"
    by (simp_all add: sim_two_def add_node_def NetworkSimulator_init_def)
  have n: "nodes sim_two = [0, 1]"
    by (simp add: sim_two_def add_node_def NetworkSimulator_init_def)
  have a: "status node_a = ''online''" "latency (network_metrics node_a) = 35"
    "bandwidth (network_metrics node_a) = 50"
    by (simp_all add: node_a_def AdvancedBlockchainNode_init_def node_draws_def)
  have r: "round1 35 = 35" "round1 50 = 50"
    by (simp_all add: round1_def round_half_even_def)
  from statistics_averages_online_only [OF h, of store_offline]
  have off: "\<exists>st. get_network_statistics store_offline sim_two = Inr st \<and> online_nodes st = 0
      \<and> average_latency st = 0 \<and> average_bandwidth st = 0"
    by (simp add: n store_offline_def)
  from statistics_averages_online_only [OF h, of store_online]
  have on: "\<exists>st. get_network_statistics store_online sim_two = Inr st \<and> online_nodes st = 2
      \<and> average_latency st = 35 \<and> average_bandwidth st = 50"
    by (simp add: n store_online_def a r numeral_2_eq_2)
  from h off on show ?thesis by blast
qed

section \<open>Properties of the node status\<close>

lemma status_update_metrics: "status (update_metrics node d) = status node"
  by (simp add: update_metrics_def Let_def)

lemma status_update_all: "status (update_all ds i h as a) = status (h a)"
  by (induction as arbitrary: h i) (simp_all add: status_update_metrics)

lemma status_congest_all: "status (congest_all ds i h as a) = status (h a)"
  by (induction as arbitrary: h i) (simp_all add: Let_def)

lemma status_simulate_node_connection:
  "status (simulate_node_connection d h self a) = status (h a)"
  by (simp add: simulate_node_connection_def Let_def)

lemma status_simulate_node_disconnection:
  "status (simulate_node_disconnection d h self a) = status (h a) \<or>
   status (simulate_node_disconnection d h self a) = ''offline''"
  by (simp add: simulate_node_disconnection_def Let_def)

text \<open>An event leaves the status of every node as it was, or sets it to \<open>offline\<close>.\<close>

lemma status_simulate_network_event:
  "status (simulate_network_event self e h a) = status (h a) \<or>
   status (simulate_network_event self e h a) = ''offline''"
  using status_simulate_node_disconnection [of e h self a]
  by (simp add: simulate_network_event_def Let_def status_simulate_node_connection
      simulate_network_congestion_def status_congest_all)

lemma status_simulate_network_events:
  "status (simulate_network_events es h self a) = status (h a) \<or>
   status (simulate_network_events es h self a) = ''offline''"
  unfolding simulate_network_events_def
proof (induction es arbitrary: h)
  case Nil
  then show ?case by simp
next
  case (Cons e es)
  from Cons.IH [of "simulate_network_event self e h"] status_simulate_network_event [of self e h a]
  show ?case by auto
qed

lemma status_simulate_network_activity:
  "status (fst (simulate_network_activity d hs) a) = status (fst hs a) \<or>
   status (fst (simulate_network_activity d hs) a) = ''offline''"
proof -
  let ?h1 = "update_all (d_metrics d) 0 (fst hs) (nodes (snd hs))"
  obtain self2 where
    r: "fst (simulate_network_activity d hs) = simulate_network_events (d_events d) ?h1 self2"
    by (simp add: simulate_network_activity_def Let_def)
  have "status (?h1 a) = status (fst hs a)"
    by (rule status_update_all)
  with status_simulate_network_events [of "d_events d" ?h1 self2 a] r show ?thesis
    by simp
qed

lemma status_ticks:
  "status (fst (fold simulate_network_activity ds hs) a) = status (fst hs a) \<or>
   status (fst (fold simulate_network_activity ds hs) a) = ''offline''"
proof (induction ds arbitrary: hs)
  case Nil
  then show ?case by simp
next
  case (Cons d ds)
  from Cons.IH [of "simulate_network_activity d hs"] status_simulate_network_activity [of d hs a]
  show ?case by auto
qed

text \<open>No tick removes a node from the registry or adds one.\<close>

lemma nodes_ticks: "nodes (snd (fold simulate_network_activity ds hs)) = nodes (snd hs)"
  by (induction ds arbitrary: hs) (simp_all add: simulate_network_activity_def Let_def)

text \<open>
  Claim C10: the constructor sets the status of a node to \<open>online\<close>;
  \<^verbatim>\<open>update_metrics\<close> leaves the status as it is; a network event, and any number of
  ticks of \<^verbatim>\<open>simulate_network_activity\<close>, leave the status of every node in the store
  as it was or set it to \<open>offline\<close>, so that a node whose status is \<open>offline\<close> has that
  status after every event and after any number of ticks, whatever the draws.
\<close>

theorem offline_is_permanent:
  "status (AdvancedBlockchainNode_init nid ntype px py proto d0) = ''online''
   \<and> status (update_metrics node d) = status node
   \<and> (status (simulate_network_event self e h a) = status (h a)
        \<or> status (simulate_network_event self e h a) = ''offline'')
   \<and> (status (fst (fold simulate_network_activity ds hs) a) = status (fst hs a)
        \<or> status (fst (fold simulate_network_activity ds hs) a) = ''offline'')
   \<and> (status (h a) = ''offline'' \<longrightarrow> status (simulate_network_event self e h a) = ''offline'')
   \<and> (status (fst hs a) = ''offline'' \<longrightarrow>
        status (fst (fold simulate_network_activity ds hs) a) = ''offline'')"
  using status_simulate_network_event [of self e h a] status_ticks [of ds hs a]
  by (auto simp: AdvancedBlockchainNode_init_def status_update_metrics)

text \<open>
  The theorem on a run: the node at address 0 is online as constructed, the tick with the
  disconnection sets it offline, and it is offline after two more ticks that draw a
  connection for it.
\<close>

theorem offline_is_permanent_witness:
  "status (store_online 0) = ''online'' \<and>
   status (fst (simulate_network_activity tick_disconnect (store_online, sim_two)) 0) = ''offline'' \<and>
   status (fst (fold simulate_network_activity [tick_connect, tick_connect]
                  (simulate_network_activity tick_disconnect (store_online, sim_two))) 0) = ''offline'' \<and>
   status (store_offline 1) = ''offline'' \<and>
   status (simulate_network_event sim_two
             \<lparr>d_event = 0, d_node = 1, d_chance = 0.5, d_congestion = (\<lambda>i. (10, 0.1))\<rparr>
             store_offline 1) = ''offline''"
proof -
  have on: "status (store_online 0) = ''online''"
    by (simp add: store_online_def node_a_def AdvancedBlockchainNode_init_def)
  have n: "nodes sim_two = [0, 1]"
    by (simp add: sim_two_def add_node_def NetworkSimulator_init_def)
  have off: "status (fst (simulate_network_activity tick_disconnect (store_online, sim_two)) 0) = ''offline''"
    by (simp add: simulate_network_activity_def Let_def tick_disconnect_def n
        simulate_network_events_def simulate_network_event_def events_def
        simulate_node_disconnection_def random_choice_def)
  have off1: "status (store_offline 1) = ''offline''"
    by (simp add: store_offline_def)
  from off offline_is_permanent
    [where ds = "[tick_connect, tick_connect]"
       and hs = "simulate_network_activity tick_disconnect (store_online, sim_two)" and a = 0]
  have later: "status (fst (fold simulate_network_activity [tick_connect, tick_connect]
                  (simulate_network_activity tick_disconnect (store_online, sim_two))) 0) = ''offline''"
    by blast
  from off1 offline_is_permanent
    [where self = sim_two
       and e = "\<lparr>d_event = 0, d_node = 1, d_chance = 0.5, d_congestion = (\<lambda>i. (10, 0.1))\<rparr>"
       and h = store_offline and a = 1]
  have ev1: "status (simulate_network_event sim_two
             \<lparr>d_event = 0, d_node = 1, d_chance = 0.5, d_congestion = (\<lambda>i. (10, 0.1))\<rparr>
             store_offline 1) = ''offline''"
    by blast
  from on off later off1 ev1 show ?thesis by blast
qed

end
